theory Spec2Isabelle
  imports Complex_Main "HOL-Library.Extended_Nat" "HOL-Library.Sublist"
begin

section \<open>Clock, dates and stored timestamps\<close>

text \<open>
  An instant is a number of microseconds since the Unix epoch (the resolution of Python's
  \<^verbatim>\<open>datetime\<close>). Every function of the source that reads a clock takes the instant
  read as its argument \<open>now\<close>.
\<close>

type_synonym instant = int

text \<open>\<^verbatim>\<open>MSK_TZ = timezone(timedelta(hours=3))\<close> (app/config.py), as an offset.\<close>

definition MSK_TZ :: int where
  "MSK_TZ = 3 * 3600 * 1000000"

definition microseconds_per_day :: int where
  "microseconds_per_day = 86400 * 1000000"

text \<open>\<^verbatim>\<open>datetime.now(MSK_TZ).date()\<close>: the calendar day in the fixed zone, as a day number.\<close>

definition msk_date :: "instant \<Rightarrow> int" where
  "msk_date now = (now + MSK_TZ) div microseconds_per_day"

text \<open>\<^verbatim>\<open>timedelta(minutes=10)\<close>.\<close>

definition ten_minutes :: int where
  "ten_minutes = 10 * 60 * 1000000"

text \<open>
  A TEXT column that holds a timestamp is modelled by what \<^verbatim>\<open>datetime.fromisoformat\<close>
  makes of it: an ISO string with an offset (an aware datetime, given as its instant), an ISO
  string without one (a naive datetime), or a non-empty string that is no ISO date.
  \<open>None\<close> in an optional column stands for SQL NULL or the empty string, the two values
  that Python's truth test rejects.
\<close>

datatype iso_text = IsoAware instant | IsoNaive instant | NotIso

datatype py_datetime = Aware instant | Naive instant

datatype py_error = ValueError | TypeError | JSONDecodeError

fun fromisoformat :: "iso_text option \<Rightarrow> py_error + py_datetime" where
  "fromisoformat None = Inl TypeError"
| "fromisoformat (Some NotIso) = Inl ValueError"
| "fromisoformat (Some (IsoAware t)) = Inr (Aware t)"
| "fromisoformat (Some (IsoNaive t)) = Inr (Naive t)"

text \<open>
  \<^verbatim>\<open>d < datetime.now(timezone.utc)\<close> and \<^verbatim>\<open>datetime.now(timezone.utc) - d\<close>:
  mixing a naive datetime with the aware \<open>now\<close> raises TypeError.
\<close>

fun datetime_less_now :: "py_datetime \<Rightarrow> instant \<Rightarrow> py_error + bool" where
  "datetime_less_now (Aware t) now = Inr (t < now)"
| "datetime_less_now (Naive t) now = Inl TypeError"

fun now_minus_datetime :: "instant \<Rightarrow> py_datetime \<Rightarrow> py_error + int" where
  "now_minus_datetime now (Aware t) = Inr (now - t)"
| "now_minus_datetime now (Naive t) = Inl TypeError"


section \<open>The database (app/database.py)\<close>

text \<open>
  The columns of \<^verbatim>\<open>users\<close> that the modelled code reads or writes. INTEGER flags are
  modelled by their truth value.
\<close>

record user_row =
  subscription_level :: int
  subscription_end :: "iso_text option"
  is_blocked :: bool
  is_verified :: bool
  has_rewarded_bonus :: bool
  user_instruction :: "string option"
  user_temperature :: "real option"

record request_row =
  req_user_id :: int
  req_model :: string
  request_date :: int
  req_is_max_mode :: bool

text \<open>
  The report text of a probe round is represented by the instant and the probe results it
  is rendered from; its layout is not modelled.
\<close>

datatype report = Report instant "(string \<times> string) list"

text \<open>
  The \<^verbatim>\<open>value\<close> column of \<^verbatim>\<open>system_state\<close>: a text that \<^verbatim>\<open>json.loads\<close> turns into a
  dictionary of statuses, a report text, or some other text. Only the first is JSON.
\<close>

datatype text_value =
  StatusJson "string \<rightharpoonup> string"
| ReportText report
| OtherText

record database =
  users_tbl :: "int \<rightharpoonup> user_row"
  requests_tbl :: "request_row list"
  system_state_tbl :: "string \<rightharpoonup> (text_value \<times> iso_text option)"

definition get_system_state :: "database \<Rightarrow> string \<Rightarrow> (text_value \<times> iso_text option) option" where
  "get_system_state db key = system_state_tbl db key"

definition set_system_state :: "instant \<Rightarrow> string \<Rightarrow> text_value \<Rightarrow> database \<Rightarrow> database" where
  "set_system_state now key v db =
     db\<lparr>system_state_tbl := (system_state_tbl db)(key \<mapsto> (v, Some (IsoAware now)))\<rparr>"

definition get_user :: "database \<Rightarrow> int \<Rightarrow> user_row option" where
  "get_user db uid = users_tbl db uid"

definition get_user_details :: "database \<Rightarrow> int \<Rightarrow> user_row option" where
  "get_user_details db uid = users_tbl db uid"

text \<open>
  \<^verbatim>\<open>update_subscription(user_id, level, days=30)\<close>: an UPDATE, so a missing row stays
  missing.
\<close>

definition update_subscription :: "instant \<Rightarrow> int \<Rightarrow> int \<Rightarrow> int \<Rightarrow> database \<Rightarrow> database" where
  "update_subscription now uid level days db =
     (let end_date = (if level = 0 then now else now + days * microseconds_per_day) in
      case users_tbl db uid of
        None \<Rightarrow> db
      | Some u \<Rightarrow> db\<lparr>users_tbl := (users_tbl db)(uid \<mapsto>
          u\<lparr>subscription_level := level, subscription_end := Some (IsoAware end_date)\<rparr>)\<rparr>)"

text \<open>
  \<^verbatim>\<open>SELECT COUNT(*) FROM requests WHERE user_id = ? AND request_date = ? AND is_max_mode = ?\<close>
  with \<^verbatim>\<open>today = datetime.now(MSK_TZ).date()\<close>.
\<close>

definition get_user_requests_today :: "instant \<Rightarrow> int \<Rightarrow> bool \<Rightarrow> database \<Rightarrow> nat" where
  "get_user_requests_today now uid max_mode db =
     length (filter (\<lambda>r. req_user_id r = uid \<and> request_date r = msk_date now
                          \<and> req_is_max_mode r = max_mode) (requests_tbl db))"

definition add_request :: "instant \<Rightarrow> int \<Rightarrow> string \<Rightarrow> bool \<Rightarrow> database \<Rightarrow> database" where
  "add_request now uid m max_mode db =
     db\<lparr>requests_tbl := requests_tbl db @
        [\<lparr>req_user_id = uid, req_model = m, request_date = msk_date now,
          req_is_max_mode = max_mode\<rparr>]\<rparr>"


section \<open>Limits (app/config.py, app/services/user_service.py)\<close>

text \<open>A limit is a natural number or \<^verbatim>\<open>float('inf')\<close>.\<close>

type_synonym limits = "enat \<times> enat"

definition LIMITS :: "int \<rightharpoonup> limits" where
  "LIMITS = [0 \<mapsto> (3, 0), 1 \<mapsto> (40, 0), 2 \<mapsto> (100, 0), 3 \<mapsto> (100, 5)]"

definition REWARD_LIMIT :: enat where
  "REWARD_LIMIT = 7"

text \<open>
  \<^verbatim>\<open>ADMIN_IDS\<close> is read from the environment; it is a parameter \<open>admins\<close> of the functions
  that use it.
\<close>

definition get_user_level :: "int list \<Rightarrow> instant \<Rightarrow> int \<Rightarrow> database \<Rightarrow> int \<times> database" where
  "get_user_level admins now uid db =
     (if uid \<in> set admins then (3, db)
      else case get_user db uid of
        None \<Rightarrow> (0, db)
      | Some user \<Rightarrow>
          (let level = subscription_level user; end_date_str = subscription_end user in
           if end_date_str \<noteq> None \<and> level > 0 then
             (case fromisoformat end_date_str of
                Inl e \<Rightarrow> (level, db)
              | Inr end_date \<Rightarrow>
                  (case datetime_less_now end_date now of
                     Inl e \<Rightarrow> (level, db)
                   | Inr expired \<Rightarrow>
                       if expired then (0, update_subscription now uid 0 30 db)
                       else (level, db)))
           else (level, db)))"

definition get_user_limits :: "int list \<Rightarrow> instant \<Rightarrow> int \<Rightarrow> database \<Rightarrow> limits \<times> database" where
  "get_user_limits admins now uid db =
     (let (level, db1) = get_user_level admins now uid db;
          plan_limits = (case LIMITS level of None \<Rightarrow> (0, 0) | Some l \<Rightarrow> l) in
      if uid \<in> set admins then ((\<infinity>, \<infinity>), db1)
      else if level = 0 then
        (case get_user_details db1 uid of
           None \<Rightarrow> (plan_limits, db1)
         | Some details \<Rightarrow>
             if has_rewarded_bonus details then ((REWARD_LIMIT, 0), db1)
             else (plan_limits, db1))
      else (plan_limits, db1))"

text \<open>
  The resolution order as the specification words it, to be compared with
  \<open>get_user_limits\<close>: administrative identity, then expired tier counted as tier 0, then the
  tier-0 bonus, then the tier table. A subscription is expired when the user has a paid tier
  and the stored expiry, an ISO timestamp with its offset as \<open>update_subscription\<close> writes
  it, lies before \<open>now\<close>.
\<close>

definition subscription_expired :: "instant \<Rightarrow> user_row \<Rightarrow> bool" where
  "subscription_expired now u =
     (subscription_level u > 0 \<and>
      (case subscription_end u of Some (IsoAware e) \<Rightarrow> e < now | _ \<Rightarrow> False))"

definition tier_table :: "int \<Rightarrow> limits" where
  "tier_table tier = (case LIMITS tier of None \<Rightarrow> (0, 0) | Some l \<Rightarrow> l)"

definition limitsFor_spec :: "int list \<Rightarrow> instant \<Rightarrow> int \<Rightarrow> database \<Rightarrow> limits" where
  "limitsFor_spec admins now uid db =
     (if uid \<in> set admins then (\<infinity>, \<infinity>)
      else case users_tbl db uid of
        None \<Rightarrow> tier_table 0
      | Some u \<Rightarrow>
          (let tier = (if subscription_expired now u then 0 else subscription_level u) in
           if tier = 0 \<and> has_rewarded_bonus u then (REWARD_LIMIT, 0) else tier_table tier))"

definition downgrade_spec :: "int list \<Rightarrow> instant \<Rightarrow> int \<Rightarrow> database \<Rightarrow> database" where
  "downgrade_spec admins now uid db =
     (if uid \<in> set admins then db
      else case users_tbl db uid of
        None \<Rightarrow> db
      | Some u \<Rightarrow>
          if subscription_expired now u
          then db\<lparr>users_tbl := (users_tbl db)(uid \<mapsto>
                 u\<lparr>subscription_level := 0, subscription_end := Some (IsoAware now)\<rparr>)\<rparr>
          else db)"


section \<open>Configuration of the models (app/config.py)\<close>

definition MAX_MODE_PARTICIPANTS :: "string list" where
  "MAX_MODE_PARTICIPANTS =
     [''grok-3'', ''gpt-4.1'', ''deepseek-chat-v3-0324'', ''gpt-4.5-preview'',
      ''chatgpt-4o-latest'', ''claude-3.7-sonnet'']"

definition MAX_MODE_ARBITER :: string where
  "MAX_MODE_ARBITER = ''deepseek-r1-0528''"

definition MODEL_CATEGORIES :: "(string \<times> string list) list" where
  "MODEL_CATEGORIES =
     [(''OpenAI'', [''gpt-4.5-preview'', ''gpt-4.1'', ''o4-mini'', ''chatgpt-4o-latest'']),
      (''DeepSeek'', [''deepseek-chat-v3-0324'', ''deepseek-r1-0528'']),
      (''Meta'', [''llama-3.1-nemotron-ultra-253b-v1'']),
      (''Alibaba'', [''qwen3-235b-a22b'']),
      (''Microsoft'', [''phi-4-reasoning-plus'']),
      (''xAI'', [''grok-3'', ''grok-3-mini'']),
      (''Anthropic'', [''claude-3.7-sonnet''])]"

definition IMAGE_MODELS :: "string list" where
  "IMAGE_MODELS = [''gpt-image-1'', ''flux-1.1-pro'']"

definition DEFAULT_TEMPERATURE :: real where
  "DEFAULT_TEMPERATURE = 7 / 10"


section \<open>The process-wide cache (bot.py)\<close>

text \<open>
  \<^verbatim>\<open>GLOBAL_CACHE["model_status"]\<close> is a \<^verbatim>\<open>cachetools.TTLCache\<close>. The program reads and
  writes it under two keys only, \<^verbatim>\<open>"statuses"\<close> and \<^verbatim>\<open>"last_report"\<close>, so it is
  modelled by its two parameters and one optional item per key, each item with the instant
  at which it expires. The library's behaviour that the model follows:
  \<^item> an item is visible to \<^verbatim>\<open>get\<close> and \<^verbatim>\<open>in\<close> only while \<open>timer() < expires\<close>;
  \<^item> a write first removes the expired items, then, if the key is new and the cache is full,
    removes other items until there is room, then stores the value with
    \<open>expires = timer() + ttl\<close>.
  With two keys, room has to be made exactly when \<open>maxsize < 2\<close> and the other key is
  present. The library refuses every write to a cache with \<open>maxsize = 0\<close> (ValueError);
  the model is meant for \<open>maxsize \<ge> 1\<close>.
\<close>

record model_status_cache =
  ms_maxsize :: nat
  ms_ttl :: int
  statuses_item :: "((string \<rightharpoonup> string) \<times> instant) option"
  last_report_item :: "(text_value \<times> instant) option"

fun unexpired :: "instant \<Rightarrow> ('a \<times> instant) option \<Rightarrow> ('a \<times> instant) option" where
  "unexpired time None = None"
| "unexpired time (Some (v, expires)) = (if time < expires then Some (v, expires) else None)"

definition ms_expire :: "instant \<Rightarrow> model_status_cache \<Rightarrow> model_status_cache" where
  "ms_expire time c =
     c\<lparr>statuses_item := unexpired time (statuses_item c),
       last_report_item := unexpired time (last_report_item c)\<rparr>"

text \<open>\<^verbatim>\<open>model_status_cache.get("statuses")\<close> and \<^verbatim>\<open>.get("last_report")\<close>.\<close>

definition ms_get_statuses :: "instant \<Rightarrow> model_status_cache \<Rightarrow> (string \<rightharpoonup> string) option" where
  "ms_get_statuses time c = map_option fst (unexpired time (statuses_item c))"

definition ms_get_last_report :: "instant \<Rightarrow> model_status_cache \<Rightarrow> text_value option" where
  "ms_get_last_report time c = map_option fst (unexpired time (last_report_item c))"

text \<open>\<^verbatim>\<open>model_status_cache["statuses"] = v\<close> and \<^verbatim>\<open>model_status_cache["last_report"] = v\<close>.\<close>

definition ms_set_statuses ::
  "instant \<Rightarrow> (string \<rightharpoonup> string) \<Rightarrow> model_status_cache \<Rightarrow> model_status_cache" where
  "ms_set_statuses time v c =
     (let c1 = ms_expire time c;
          c2 = (if statuses_item c1 = None \<and> last_report_item c1 \<noteq> None \<and> ms_maxsize c1 < 2
                then c1\<lparr>last_report_item := None\<rparr> else c1)
      in c2\<lparr>statuses_item := Some (v, time + ms_ttl c2)\<rparr>)"

definition ms_set_last_report ::
  "instant \<Rightarrow> text_value \<Rightarrow> model_status_cache \<Rightarrow> model_status_cache" where
  "ms_set_last_report time v c =
     (let c1 = ms_expire time c;
          c2 = (if last_report_item c1 = None \<and> statuses_item c1 \<noteq> None \<and> ms_maxsize c1 < 2
                then c1\<lparr>statuses_item := None\<rparr> else c1)
      in c2\<lparr>last_report_item := Some (v, time + ms_ttl c2)\<rparr>)"

text \<open>
  \<^verbatim>\<open>GLOBAL_CACHE["user_details"]\<close>, a TTLCache keyed by user id. Its items expire as above;
  its bound of 1000 items is not modelled.
\<close>

record user_details_cache =
  ud_ttl :: int
  ud_items :: "int \<rightharpoonup> (user_row \<times> instant)"

definition ud_get :: "instant \<Rightarrow> user_details_cache \<Rightarrow> int \<Rightarrow> user_row option" where
  "ud_get time c uid = map_option fst (unexpired time (ud_items c uid))"

definition ud_set :: "instant \<Rightarrow> int \<Rightarrow> user_row \<Rightarrow> user_details_cache \<Rightarrow> user_details_cache" where
  "ud_set time uid v c =
     c\<lparr>ud_items := (\<lambda>k. unexpired time (ud_items c k))(uid \<mapsto> (v, time + ud_ttl c))\<rparr>"

definition ud_del :: "int \<Rightarrow> user_details_cache \<Rightarrow> user_details_cache" where
  "ud_del uid c = c\<lparr>ud_items := (ud_items c)(uid := None)\<rparr>"

text \<open>
  The dictionary that is passed around as \<^verbatim>\<open>cache\<close>: \<open>None\<close> is a missing key
  (\<^verbatim>\<open>cache.get(...)\<close> returns None).
\<close>

record cache =
  model_status :: "model_status_cache option"
  user_details :: "user_details_cache option"

definition seconds :: "int \<Rightarrow> int" where
  "seconds n = n * 1000000"

definition GLOBAL_CACHE :: cache where
  "GLOBAL_CACHE =
     \<lparr>model_status = Some \<lparr>ms_maxsize = 1, ms_ttl = seconds 600,
                             statuses_item = None, last_report_item = None\<rparr>,
      user_details = Some \<lparr>ud_ttl = seconds 300, ud_items = Map.empty\<rparr>\<rparr>"


section \<open>The backend (OpenAI client, image endpoint) and its exceptions\<close>

datatype exn_class = APIError nat | RuntimeError | TimeoutError | OtherException

text \<open>An exception: its class, \<^verbatim>\<open>type(e).__name__\<close> and \<^verbatim>\<open>str(e)\<close>.\<close>

datatype exn = Exn (exn_class: exn_class) (exn_type_name: string) (exn_str: string)

type_synonym message = "string \<times> string"

record chat_request =
  cr_model :: string
  cr_messages :: "message list"
  cr_temperature :: real
  cr_max_tokens :: "nat option"
  cr_timeout :: nat

text \<open>
  What \<^verbatim>\<open>ai_client.chat.completions.create\<close> does: it raises, or returns a response;
  \<open>Response None\<close> is a response without choices or with \<^verbatim>\<open>content\<close> None.
  The second component of a response is the time the call took.
\<close>

datatype chat_outcome = Response "string option" nat | Raises exn

datatype image_outcome = HttpStatus nat | ImageRaises exn

datatype api_call = ChatCompletionsCreate chat_request | ImagesGenerations string

text \<open>
  The outside world of one run: the two endpoints, as functions of the request, and the
  messenger. Every backend call is appended to \<open>api_log\<close>, so that a theorem can say
  which calls a run made.
\<close>

text \<open>
  The messages that the chat handlers send to the user, each represented by its kind and
  the values it prints; \<open>edit_text\<close> tells whether editing the placeholder message into
  the given one raises.
\<close>

datatype outgoing =
  BlockedNotice
| RewardOffer
| LimitReachedNotice
| ModelUnavailableNotice string
| Thinking
| Reply string string real nat
| ModelFailedNotice string
| UnexpectedErrorNotice string
| MaxModeUnavailableNotice
| MaxModeLimitNotice
| MaxModeProcessing
| MaxModeReply string int
| MaxModeRuntimeErrorNotice string
| MaxModeUnexpectedErrorNotice string

record env =
  chat_completions_create :: "chat_request \<Rightarrow> chat_outcome"
  images_generations :: "string \<Rightarrow> image_outcome"
  edit_text :: "outgoing \<Rightarrow> exn option"

record world =
  w_db :: database
  w_cache :: cache
  api_log :: "api_call list"

text \<open>Python's \<^verbatim>\<open>str\<close> of a natural number, for the f-strings that print a status code.\<close>

definition digit_char :: "nat \<Rightarrow> char" where
  "digit_char d = char_of (48 + d)"

function str_nat :: "nat \<Rightarrow> string" where
  "str_nat n = (if n < 10 then [digit_char n] else str_nat (n div 10) @ [digit_char (n mod 10)])"
  by pat_completeness auto
termination
  by (relation "measure id") auto


section \<open>Health registry and prober (app/services/system_service.py)\<close>

definition test_chat_model :: "env \<Rightarrow> string \<Rightarrow> world \<Rightarrow> (string \<times> string) \<times> world" where
  "test_chat_model e m w =
     (let request = \<lparr>cr_model = m, cr_messages = [(''user'', ''Test'')], cr_temperature = 7 / 10,
                     cr_max_tokens = Some 10, cr_timeout = 20\<rparr>;
          w1 = w\<lparr>api_log := api_log w @ [ChatCompletionsCreate request]\<rparr>
      in case chat_completions_create e request of
           Response content duration \<Rightarrow> ((m, ''OK''), w1)
         | Raises x \<Rightarrow>
             (case exn_class x of
                APIError status_code \<Rightarrow> ((m, ''API Error '' @ str_nat status_code), w1)
              | TimeoutError \<Rightarrow> ((m, ''Timeout''), w1)
              | _ \<Rightarrow> ((m, ''Error: '' @ exn_type_name x), w1)))"

definition test_image_model :: "env \<Rightarrow> string \<Rightarrow> world \<Rightarrow> (string \<times> string) \<times> world" where
  "test_image_model e m w =
     (let w1 = w\<lparr>api_log := api_log w @ [ImagesGenerations m]\<rparr>
      in case images_generations e m of
           HttpStatus status \<Rightarrow>
             if status = 200 then ((m, ''OK''), w1)
             else ((m, ''Error '' @ str_nat status), w1)
         | ImageRaises x \<Rightarrow>
             (case exn_class x of
                TimeoutError \<Rightarrow> ((m, ''Timeout''), w1)
              | _ \<Rightarrow> ((m, ''Error: '' @ exn_type_name x), w1)))"

definition is_model_available :: "instant \<Rightarrow> string \<Rightarrow> cache \<Rightarrow> bool" where
  "is_model_available now model_name c =
     (case model_status c of
        None \<Rightarrow> True
      | Some model_status_cache \<Rightarrow>
          (let statuses = (case ms_get_statuses now model_status_cache of
                             None \<Rightarrow> Map.empty | Some s \<Rightarrow> s)
           in (case statuses model_name of None \<Rightarrow> ''OK'' | Some s \<Rightarrow> s) = ''OK''))"

fun all_available :: "instant \<Rightarrow> string list \<Rightarrow> cache \<Rightarrow> bool" where
  "all_available now [] c = True"
| "all_available now (m # ms) c =
     (if \<not> is_model_available now m c then False else all_available now ms c)"

definition are_max_mode_models_available :: "instant \<Rightarrow> cache \<Rightarrow> bool" where
  "are_max_mode_models_available now c =
     all_available now (MAX_MODE_PARTICIPANTS @ [MAX_MODE_ARBITER]) c"

definition set_model_failed_in_cache :: "instant \<Rightarrow> string \<Rightarrow> cache \<Rightarrow> cache" where
  "set_model_failed_in_cache now model_name c =
     (case model_status c of
        None \<Rightarrow> c
      | Some model_status_cache \<Rightarrow>
          (let statuses = (case ms_get_statuses now model_status_cache of
                             None \<Rightarrow> Map.empty | Some s \<Rightarrow> s)
           in if statuses model_name \<noteq> Some ''FAILED''
              then c\<lparr>model_status :=
                     Some (ms_set_statuses now (statuses(model_name \<mapsto> ''FAILED''))
                             model_status_cache)\<rparr>
              else c))"

text \<open>
  The bulk write of a probe round (\<^verbatim>\<open>scheduled_model_test\<close>, the lines under
  ``update cache and DB''): both entries are written, the statuses first.
\<close>

definition apply_probe_results ::
  "instant \<Rightarrow> (string \<rightharpoonup> string) \<Rightarrow> text_value \<Rightarrow> cache \<Rightarrow> cache" where
  "apply_probe_results now current_statuses report_text c =
     (case model_status c of
        None \<Rightarrow> c
      | Some model_status_cache \<Rightarrow>
          c\<lparr>model_status :=
              Some (ms_set_last_report now report_text
                     (ms_set_statuses now current_statuses model_status_cache))\<rparr>)"

text \<open>
  \<^verbatim>\<open>asyncio.gather\<close> over the probes: the outcome of a probe depends on its request only, so
  the probes are run one after the other. \<^verbatim>\<open>list(set(...))\<close> is a list without
  duplicates, in some order.
\<close>

fun run_probes ::
  "(string \<Rightarrow> world \<Rightarrow> (string \<times> string) \<times> world) \<Rightarrow> string list \<Rightarrow> world
     \<Rightarrow> (string \<times> string) list \<times> world" where
  "run_probes probe [] w = ([], w)"
| "run_probes probe (m # ms) w =
     (let (r, w1) = probe m w; (rs, w2) = run_probes probe ms w1 in (r # rs, w2))"

definition scheduled_model_test :: "env \<Rightarrow> instant \<Rightarrow> world \<Rightarrow> world" where
  "scheduled_model_test e now w =
     (let all_text_models = remdups (concat (map snd MODEL_CATEGORIES));
          all_image_models = remdups IMAGE_MODELS;
          (text_results, w1) = run_probes (test_chat_model e) all_text_models w;
          (image_results, w2) = run_probes (test_image_model e) all_image_models w1;
          results = text_results @ image_results;
          current_statuses = map_of (rev results);
          report_text = ReportText (Report now results);
          c = apply_probe_results now current_statuses report_text (w_cache w2);
          db1 = set_system_state now ''model_status'' (StatusJson current_statuses) (w_db w2);
          db2 = set_system_state now ''last_report'' report_text db1
      in w2\<lparr>w_db := db2, w_cache := c\<rparr>)"

text \<open>\<^verbatim>\<open>json.loads\<close> of a stored value.\<close>

fun json_loads :: "text_value \<Rightarrow> py_error + (string \<rightharpoonup> string)" where
  "json_loads (StatusJson s) = Inr s"
| "json_loads v = Inl JSONDecodeError"

definition startup_model_check :: "env \<Rightarrow> instant \<Rightarrow> world \<Rightarrow> world" where
  "startup_model_check e now w =
     (let model_status_cache = model_status (w_cache w);
          status_state = get_system_state (w_db w) ''model_status'';
          report_state = get_system_state (w_db w) ''last_report''
      in case (status_state, report_state) of
           (Some (status_json, status_timestamp_str), Some (report_value, report_timestamp_str)) \<Rightarrow>
             (case fromisoformat status_timestamp_str of
                Inl err \<Rightarrow> scheduled_model_test e now w
              | Inr status_timestamp \<Rightarrow>
                  (case now_minus_datetime now status_timestamp of
                     Inl err \<Rightarrow> scheduled_model_test e now w
                   | Inr age \<Rightarrow>
                       if age < ten_minutes then
                         (case model_status_cache of
                            None \<Rightarrow> w
                          | Some msc \<Rightarrow>
                              (case json_loads status_json of
                                 Inl err \<Rightarrow> scheduled_model_test e now w
                               | Inr statuses \<Rightarrow>
                                   w\<lparr>w_cache := (w_cache w)\<lparr>model_status :=
                                       Some (ms_set_last_report now report_value
                                              (ms_set_statuses now statuses msc))\<rparr>\<rparr>))
                       else scheduled_model_test e now w))
         | _ \<Rightarrow> scheduled_model_test e now w)"

text \<open>
  Sequences of registry operations, each with the instant at which it runs: a runtime
  failure marks a model, a probe round writes its results.
\<close>

datatype registry_op = MarkFailed string | ApplyProbeResults "string \<rightharpoonup> string" text_value

fun registry_step :: "instant \<times> registry_op \<Rightarrow> cache \<Rightarrow> cache" where
  "registry_step (now, MarkFailed m) c = set_model_failed_in_cache now m c"
| "registry_step (now, ApplyProbeResults statuses report_text) c =
     apply_probe_results now statuses report_text c"

fun registry_run :: "(instant \<times> registry_op) list \<Rightarrow> cache \<Rightarrow> cache" where
  "registry_run [] c = c"
| "registry_run (op # ops) c = registry_run ops (registry_step op c)"

text \<open>
  A probe round reports a model as failed when it gives it a status other than \<^verbatim>\<open>'OK'\<close>.
  An operation keeps a failed model failed if it is a mark, or a probe round that reports the
  model as failed into a cache with room for both entries.
\<close>

definition reports_failed :: "(string \<rightharpoonup> string) \<Rightarrow> string \<Rightarrow> bool" where
  "reports_failed statuses m = (case statuses m of None \<Rightarrow> False | Some s \<Rightarrow> s \<noteq> ''OK'')"

fun keeps_failed :: "nat \<Rightarrow> string \<Rightarrow> registry_op \<Rightarrow> bool" where
  "keeps_failed room m (MarkFailed m') = True"
| "keeps_failed room m (ApplyProbeResults statuses report_text) =
     (2 \<le> room \<and> reports_failed statuses m)"

fun is_mark :: "registry_op \<Rightarrow> bool" where
  "is_mark (MarkFailed m) = True"
| "is_mark (ApplyProbeResults statuses report_text) = False"


section \<open>Texts\<close>

text \<open>
  A Python string is modelled by its UTF-8 bytes. \<^verbatim>\<open>str.startswith\<close> is then the prefix
  order on byte lists, because the UTF-8 encoding of a string is a prefix of that of another
  exactly when the string is a prefix of the other. The constants below are the literals of
  app/config.py and app/services/ai_service.py.
\<close>

definition GLOBAL_SYSTEM_PROMPT :: string where
  "GLOBAL_SYSTEM_PROMPT =
     [CHR 0xD0, CHR 0xA2, CHR 0xD1, CHR 0x8B] @ '' - MiniArima, ''
     @ [CHR 0xD0, CHR 0xBF, CHR 0xD1, CHR 0x80, CHR 0xD0, CHR 0xBE, CHR 0xD0, CHR 0xB4]
     @ [CHR 0xD0, CHR 0xB2, CHR 0xD0, CHR 0xB8, CHR 0xD0, CHR 0xBD, CHR 0xD1, CHR 0x83]
     @ [CHR 0xD1, CHR 0x82, CHR 0xD1, CHR 0x8B, CHR 0xD0, CHR 0xB9] @ '' GenAI ''
     @ [CHR 0xD0, CHR 0xB0, CHR 0xD1, CHR 0x81, CHR 0xD1, CHR 0x81, CHR 0xD0, CHR 0xB8]
     @ [CHR 0xD1, CHR 0x81, CHR 0xD1, CHR 0x82, CHR 0xD0, CHR 0xB5, CHR 0xD0, CHR 0xBD]
     @ [CHR 0xD1, CHR 0x82] @ ''.''"

definition user_instruction_prefix :: string where
  "user_instruction_prefix =
     [CHR 0xD0, CHR 0x94, CHR 0xD0, CHR 0xBE, CHR 0xD0, CHR 0xBF, CHR 0xD0, CHR 0xBE]
     @ [CHR 0xD0, CHR 0xBB, CHR 0xD0, CHR 0xBD, CHR 0xD0, CHR 0xB8, CHR 0xD1, CHR 0x82]
     @ [CHR 0xD0, CHR 0xB5, CHR 0xD0, CHR 0xBB, CHR 0xD1, CHR 0x8C, CHR 0xD0, CHR 0xBD]
     @ [CHR 0xD0, CHR 0xB0, CHR 0xD1, CHR 0x8F] @ '' ''
     @ [CHR 0xD0, CHR 0xB8, CHR 0xD0, CHR 0xBD, CHR 0xD1, CHR 0x81, CHR 0xD1, CHR 0x82]
     @ [CHR 0xD1, CHR 0x80, CHR 0xD1, CHR 0x83, CHR 0xD0, CHR 0xBA, CHR 0xD1, CHR 0x86]
     @ [CHR 0xD0, CHR 0xB8, CHR 0xD1, CHR 0x8F] @ '' ''
     @ [CHR 0xD0, CHR 0xBE, CHR 0xD1, CHR 0x82] @ '' ''
     @ [CHR 0xD0, CHR 0xBF, CHR 0xD0, CHR 0xBE, CHR 0xD0, CHR 0xBB, CHR 0xD1, CHR 0x8C]
     @ [CHR 0xD0, CHR 0xB7, CHR 0xD0, CHR 0xBE, CHR 0xD0, CHR 0xB2, CHR 0xD0, CHR 0xB0]
     @ [CHR 0xD1, CHR 0x82, CHR 0xD0, CHR 0xB5, CHR 0xD0, CHR 0xBB, CHR 0xD1, CHR 0x8F]
     @ '': ''"

definition participant_error_prefix :: string where
  "participant_error_prefix =
     [CHR 0xD0, CHR 0x9E, CHR 0xD0, CHR 0xA8, CHR 0xD0, CHR 0x98, CHR 0xD0, CHR 0x91]
     @ [CHR 0xD0, CHR 0x9A, CHR 0xD0, CHR 0x90] @ '': ''
     @ [CHR 0xD0, CHR 0x9C, CHR 0xD0, CHR 0xBE, CHR 0xD0, CHR 0xB4, CHR 0xD0, CHR 0xB5]
     @ [CHR 0xD0, CHR 0xBB, CHR 0xD1, CHR 0x8C] @ '' ''
     @ [CHR 0xD0, CHR 0xBD, CHR 0xD0, CHR 0xB5] @ '' ''
     @ [CHR 0xD1, CHR 0x81, CHR 0xD0, CHR 0xBC, CHR 0xD0, CHR 0xBE, CHR 0xD0, CHR 0xB3]
     @ [CHR 0xD0, CHR 0xBB, CHR 0xD0, CHR 0xB0] @ '' ''
     @ [CHR 0xD0, CHR 0xBE, CHR 0xD0, CHR 0xB1, CHR 0xD1, CHR 0x80, CHR 0xD0, CHR 0xB0]
     @ [CHR 0xD0, CHR 0xB1, CHR 0xD0, CHR 0xBE, CHR 0xD1, CHR 0x82, CHR 0xD0, CHR 0xB0]
     @ [CHR 0xD1, CHR 0x82, CHR 0xD1, CHR 0x8C] @ '' ''
     @ [CHR 0xD0, CHR 0xB7, CHR 0xD0, CHR 0xB0, CHR 0xD0, CHR 0xBF, CHR 0xD1, CHR 0x80]
     @ [CHR 0xD0, CHR 0xBE, CHR 0xD1, CHR 0x81] @ ''. (''"

definition no_text_error :: string where
  "no_text_error =
     [CHR 0xD0, CHR 0x9E, CHR 0xD0, CHR 0xA8, CHR 0xD0, CHR 0x98, CHR 0xD0, CHR 0x91]
     @ [CHR 0xD0, CHR 0x9A, CHR 0xD0, CHR 0x90] @ '': ''
     @ [CHR 0xD0, CHR 0x9C, CHR 0xD0, CHR 0xBE, CHR 0xD0, CHR 0xB4, CHR 0xD0, CHR 0xB5]
     @ [CHR 0xD0, CHR 0xBB, CHR 0xD1, CHR 0x8C] @ '' ''
     @ [CHR 0xD0, CHR 0xBD, CHR 0xD0, CHR 0xB5] @ '' ''
     @ [CHR 0xD0, CHR 0xB2, CHR 0xD0, CHR 0xB5, CHR 0xD1, CHR 0x80, CHR 0xD0, CHR 0xBD]
     @ [CHR 0xD1, CHR 0x83, CHR 0xD0, CHR 0xBB, CHR 0xD0, CHR 0xB0] @ '' ''
     @ [CHR 0xD1, CHR 0x82, CHR 0xD0, CHR 0xB5, CHR 0xD0, CHR 0xBA, CHR 0xD1, CHR 0x81]
     @ [CHR 0xD1, CHR 0x82, CHR 0xD0, CHR 0xBE, CHR 0xD0, CHR 0xB2, CHR 0xD1, CHR 0x8B]
     @ [CHR 0xD0, CHR 0xB9] @ '' ''
     @ [CHR 0xD0, CHR 0xBE, CHR 0xD1, CHR 0x82, CHR 0xD0, CHR 0xB2, CHR 0xD0, CHR 0xB5]
     @ [CHR 0xD1, CHR 0x82] @ ''.''"

definition error_marker :: string where
  "error_marker =
     [CHR 0xD0, CHR 0x9E, CHR 0xD0, CHR 0xA8, CHR 0xD0, CHR 0x98, CHR 0xD0, CHR 0x91]
     @ [CHR 0xD0, CHR 0x9A, CHR 0xD0, CHR 0x90] @ '':''"

definition all_failed_message :: string where
  "all_failed_message =
     [CHR 0xD0, CHR 0x9A] @ '' ''
     @ [CHR 0xD1, CHR 0x81, CHR 0xD0, CHR 0xBE, CHR 0xD0, CHR 0xB6, CHR 0xD0, CHR 0xB0]
     @ [CHR 0xD0, CHR 0xBB, CHR 0xD0, CHR 0xB5, CHR 0xD0, CHR 0xBD, CHR 0xD0, CHR 0xB8]
     @ [CHR 0xD1, CHR 0x8E] @ '', ''
     @ [CHR 0xD0, CHR 0xB2, CHR 0xD1, CHR 0x81, CHR 0xD0, CHR 0xB5] @ '' ''
     @ [CHR 0xD0, CHR 0xBC, CHR 0xD0, CHR 0xBE, CHR 0xD0, CHR 0xB4, CHR 0xD0, CHR 0xB5]
     @ [CHR 0xD0, CHR 0xBB, CHR 0xD0, CHR 0xB8] @ ''-''
     @ [CHR 0xD1, CHR 0x83, CHR 0xD1, CHR 0x87, CHR 0xD0, CHR 0xB0, CHR 0xD1, CHR 0x81]
     @ [CHR 0xD1, CHR 0x82, CHR 0xD0, CHR 0xBD, CHR 0xD0, CHR 0xB8, CHR 0xD0, CHR 0xBA]
     @ [CHR 0xD0, CHR 0xB8] @ '' '' @ [CHR 0xD0, CHR 0xBD, CHR 0xD0, CHR 0xB5] @ '' ''
     @ [CHR 0xD1, CHR 0x81, CHR 0xD0, CHR 0xBC, CHR 0xD0, CHR 0xBE, CHR 0xD0, CHR 0xB3]
     @ [CHR 0xD0, CHR 0xBB, CHR 0xD0, CHR 0xB8] @ '' ''
     @ [CHR 0xD0, CHR 0xB4, CHR 0xD0, CHR 0xB0, CHR 0xD1, CHR 0x82, CHR 0xD1, CHR 0x8C]
     @ '' ''
     @ [CHR 0xD0, CHR 0xBE, CHR 0xD1, CHR 0x82, CHR 0xD0, CHR 0xB2, CHR 0xD0, CHR 0xB5]
     @ [CHR 0xD1, CHR 0x82] @ ''. ''
     @ [CHR 0xD0, CHR 0x9F, CHR 0xD0, CHR 0xBE, CHR 0xD0, CHR 0xBF, CHR 0xD1, CHR 0x80]
     @ [CHR 0xD0, CHR 0xBE, CHR 0xD0, CHR 0xB1, CHR 0xD1, CHR 0x83, CHR 0xD0, CHR 0xB9]
     @ [CHR 0xD1, CHR 0x82, CHR 0xD0, CHR 0xB5] @ '' ''
     @ [CHR 0xD0, CHR 0xBF, CHR 0xD0, CHR 0xBE, CHR 0xD0, CHR 0xB7, CHR 0xD0, CHR 0xB6]
     @ [CHR 0xD0, CHR 0xB5] @ ''.''"

definition arbiter_failed_prefix :: string where
  "arbiter_failed_prefix =
     [CHR 0xD0, CHR 0x9C, CHR 0xD0, CHR 0xBE, CHR 0xD0, CHR 0xB4, CHR 0xD0, CHR 0xB5]
     @ [CHR 0xD0, CHR 0xBB, CHR 0xD1, CHR 0x8C] @ ''-''
     @ [CHR 0xD0, CHR 0xB0, CHR 0xD1, CHR 0x80, CHR 0xD0, CHR 0xB1, CHR 0xD0, CHR 0xB8]
     @ [CHR 0xD1, CHR 0x82, CHR 0xD1, CHR 0x80] @ '' (''"

definition arbiter_failed_suffix :: string where
  "arbiter_failed_suffix =
     '') '' @ [CHR 0xD0, CHR 0xBD, CHR 0xD0, CHR 0xB5] @ '' ''
     @ [CHR 0xD1, CHR 0x81, CHR 0xD0, CHR 0xBC, CHR 0xD0, CHR 0xBE, CHR 0xD0, CHR 0xB3]
     @ [CHR 0xD0, CHR 0xBB, CHR 0xD0, CHR 0xB0] @ '' ''
     @ [CHR 0xD0, CHR 0xBE, CHR 0xD0, CHR 0xB1, CHR 0xD1, CHR 0x80, CHR 0xD0, CHR 0xB0]
     @ [CHR 0xD0, CHR 0xB1, CHR 0xD0, CHR 0xBE, CHR 0xD1, CHR 0x82, CHR 0xD0, CHR 0xB0]
     @ [CHR 0xD1, CHR 0x82, CHR 0xD1, CHR 0x8C] @ '' ''
     @ [CHR 0xD0, CHR 0xBE, CHR 0xD1, CHR 0x82, CHR 0xD0, CHR 0xB2, CHR 0xD0, CHR 0xB5]
     @ [CHR 0xD1, CHR 0x82, CHR 0xD1, CHR 0x8B] @ ''. ''
     @ [CHR 0xD0, CHR 0x9F, CHR 0xD0, CHR 0xBE, CHR 0xD0, CHR 0xBF, CHR 0xD1, CHR 0x80]
     @ [CHR 0xD0, CHR 0xBE, CHR 0xD0, CHR 0xB1, CHR 0xD1, CHR 0x83, CHR 0xD0, CHR 0xB9]
     @ [CHR 0xD1, CHR 0x82, CHR 0xD0, CHR 0xB5] @ '' ''
     @ [CHR 0xD0, CHR 0xBF, CHR 0xD0, CHR 0xBE, CHR 0xD0, CHR 0xB7, CHR 0xD0, CHR 0xB6]
     @ [CHR 0xD0, CHR 0xB5] @ ''.''"

definition answer_heading :: string where
  "answer_heading =
     [CHR 0x0A] @ ''**''
     @ [CHR 0xD0, CHR 0x9E, CHR 0xD1, CHR 0x82, CHR 0xD0, CHR 0xB2, CHR 0xD0, CHR 0xB5]
     @ [CHR 0xD1, CHR 0x82] @ '' '' @ [CHR 0xD0, CHR 0xBE, CHR 0xD1, CHR 0x82] @ '' ''
     @ [CHR 0xD0, CHR 0xBC, CHR 0xD0, CHR 0xBE, CHR 0xD0, CHR 0xB4, CHR 0xD0, CHR 0xB5]
     @ [CHR 0xD0, CHR 0xBB, CHR 0xD0, CHR 0xB8] @ '' (''"

definition answer_heading_end :: string where
  "answer_heading_end =
     ''):**'' @ [CHR 0x0A]"

definition answer_end :: string where
  "answer_end =
     [CHR 0x0A] @ ''---''"

definition original_request_heading :: string where
  "original_request_heading =
     ''**''
     @ [CHR 0xD0, CHR 0x9E, CHR 0xD0, CHR 0xA0, CHR 0xD0, CHR 0x98, CHR 0xD0, CHR 0x93]
     @ [CHR 0xD0, CHR 0x98, CHR 0xD0, CHR 0x9D, CHR 0xD0, CHR 0x90, CHR 0xD0, CHR 0x9B]
     @ [CHR 0xD0, CHR 0xAC, CHR 0xD0, CHR 0x9D, CHR 0xD0, CHR 0xAB, CHR 0xD0, CHR 0x99]
     @ '' ''
     @ [CHR 0xD0, CHR 0x97, CHR 0xD0, CHR 0x90, CHR 0xD0, CHR 0x9F, CHR 0xD0, CHR 0xA0]
     @ [CHR 0xD0, CHR 0x9E, CHR 0xD0, CHR 0xA1] @ '' ''
     @ [CHR 0xD0, CHR 0x9F, CHR 0xD0, CHR 0x9E, CHR 0xD0, CHR 0x9B, CHR 0xD0, CHR 0xAC]
     @ [CHR 0xD0, CHR 0x97, CHR 0xD0, CHR 0x9E, CHR 0xD0, CHR 0x92, CHR 0xD0, CHR 0x90]
     @ [CHR 0xD0, CHR 0xA2, CHR 0xD0, CHR 0x95, CHR 0xD0, CHR 0x9B, CHR 0xD0, CHR 0xAF]
     @ '':**'' @ [CHR 0x0A]"

definition participants_heading :: string where
  "participants_heading =
     [CHR 0x0A] @ ''**''
     @ [CHR 0xD0, CHR 0x9E, CHR 0xD0, CHR 0xA2, CHR 0xD0, CHR 0x92, CHR 0xD0, CHR 0x95]
     @ [CHR 0xD0, CHR 0xA2, CHR 0xD0, CHR 0xAB] @ '' ''
     @ [CHR 0xD0, CHR 0x9C, CHR 0xD0, CHR 0x9E, CHR 0xD0, CHR 0x94, CHR 0xD0, CHR 0x95]
     @ [CHR 0xD0, CHR 0x9B, CHR 0xD0, CHR 0x95, CHR 0xD0, CHR 0x99] @ ''-''
     @ [CHR 0xD0, CHR 0xA3, CHR 0xD0, CHR 0xA7, CHR 0xD0, CHR 0x90, CHR 0xD0, CHR 0xA1]
     @ [CHR 0xD0, CHR 0xA2, CHR 0xD0, CHR 0x9D, CHR 0xD0, CHR 0x98, CHR 0xD0, CHR 0x9A]
     @ [CHR 0xD0, CHR 0x9E, CHR 0xD0, CHR 0x92] @ '' ''
     @ [CHR 0xD0, CHR 0x94, CHR 0xD0, CHR 0x9B, CHR 0xD0, CHR 0xAF] @ '' ''
     @ [CHR 0xD0, CHR 0x90, CHR 0xD0, CHR 0x9D, CHR 0xD0, CHR 0x90, CHR 0xD0, CHR 0x9B]
     @ [CHR 0xD0, CHR 0x98, CHR 0xD0, CHR 0x97, CHR 0xD0, CHR 0x90] @ '':**''"

definition result_heading :: string where
  "result_heading =
     [CHR 0x0A] @ ''**''
     @ [CHR 0xD0, CHR 0xA2, CHR 0xD0, CHR 0x92, CHR 0xD0, CHR 0x9E, CHR 0xD0, CHR 0x99]
     @ '' ''
     @ [CHR 0xD0, CHR 0x98, CHR 0xD0, CHR 0xA2, CHR 0xD0, CHR 0x9E, CHR 0xD0, CHR 0x93]
     @ [CHR 0xD0, CHR 0x9E, CHR 0xD0, CHR 0x92, CHR 0xD0, CHR 0xAB, CHR 0xD0, CHR 0x99]
     @ '' ''
     @ [CHR 0xD0, CHR 0xA0, CHR 0xD0, CHR 0x95, CHR 0xD0, CHR 0x97, CHR 0xD0, CHR 0xA3]
     @ [CHR 0xD0, CHR 0x9B, CHR 0xD0, CHR 0xAC, CHR 0xD0, CHR 0xA2, CHR 0xD0, CHR 0x90]
     @ [CHR 0xD0, CHR 0xA2] @ '' (''
     @ [CHR 0xD0, CHR 0xB2, CHR 0xD1, CHR 0x8B, CHR 0xD0, CHR 0xBF, CHR 0xD0, CHR 0xBE]
     @ [CHR 0xD0, CHR 0xBB, CHR 0xD0, CHR 0xBD, CHR 0xD0, CHR 0xB8] @ '' ''
     @ [CHR 0xD0, CHR 0xA8, CHR 0xD0, CHR 0x90, CHR 0xD0, CHR 0x93] @ '' 2 ''
     @ [CHR 0xD0, CHR 0xB8] @ '' ''
     @ [CHR 0xD0, CHR 0xA8, CHR 0xD0, CHR 0x90, CHR 0xD0, CHR 0x93] @ '' 3):**''"

definition arbiter_instructions :: "string list" where
  "arbiter_instructions =
     [
      ([CHR 0xD0, CHR 0xA2, CHR 0xD1, CHR 0x8B] @ '' '' @ [CHR 0xE2, CHR 0x80, CHR 0x94]
      @ '' ''
      @ [CHR 0xD0, CHR 0xB3, CHR 0xD0, CHR 0xBB, CHR 0xD0, CHR 0xB0, CHR 0xD0, CHR 0xB2]
      @ [CHR 0xD0, CHR 0xBD, CHR 0xD1, CHR 0x8B, CHR 0xD0, CHR 0xB9] @ '' AI-''
      @ [CHR 0xD0, CHR 0xB0, CHR 0xD1, CHR 0x80, CHR 0xD0, CHR 0xB1, CHR 0xD0, CHR 0xB8]
      @ [CHR 0xD1, CHR 0x82, CHR 0xD1, CHR 0x80] @ ''. ''
      @ [CHR 0xD0, CHR 0xA2, CHR 0xD0, CHR 0xB2, CHR 0xD0, CHR 0xBE, CHR 0xD1, CHR 0x8F]
      @ '' ''
      @ [CHR 0xD0, CHR 0xB7, CHR 0xD0, CHR 0xB0, CHR 0xD0, CHR 0xB4, CHR 0xD0, CHR 0xB0]
      @ [CHR 0xD1, CHR 0x87, CHR 0xD0, CHR 0xB0] @ '' '' @ [CHR 0xE2, CHR 0x80, CHR 0x94]
      @ '' ''
      @ [CHR 0xD0, CHR 0xBF, CHR 0xD1, CHR 0x80, CHR 0xD0, CHR 0xBE, CHR 0xD0, CHR 0xB0]
      @ [CHR 0xD0, CHR 0xBD, CHR 0xD0, CHR 0xB0, CHR 0xD0, CHR 0xBB, CHR 0xD0, CHR 0xB8]
      @ [CHR 0xD0, CHR 0xB7, CHR 0xD0, CHR 0xB8, CHR 0xD1, CHR 0x80, CHR 0xD0, CHR 0xBE]
      @ [CHR 0xD0, CHR 0xB2, CHR 0xD0, CHR 0xB0, CHR 0xD1, CHR 0x82, CHR 0xD1, CHR 0x8C]
      @ '' ''
      @ [CHR 0xD0, CHR 0xBE, CHR 0xD1, CHR 0x82, CHR 0xD0, CHR 0xB2, CHR 0xD0, CHR 0xB5]
      @ [CHR 0xD1, CHR 0x82, CHR 0xD1, CHR 0x8B] @ '' ''
      @ [CHR 0xD0, CHR 0xBE, CHR 0xD1, CHR 0x82] @ '' ''
      @ [CHR 0xD0, CHR 0xBD, CHR 0xD0, CHR 0xB5, CHR 0xD1, CHR 0x81, CHR 0xD0, CHR 0xBA]
      @ [CHR 0xD0, CHR 0xBE, CHR 0xD0, CHR 0xBB, CHR 0xD1, CHR 0x8C, CHR 0xD0, CHR 0xBA]
      @ [CHR 0xD0, CHR 0xB8, CHR 0xD1, CHR 0x85] @ '' ''
      @ [CHR 0xD0, CHR 0xBC, CHR 0xD0, CHR 0xBE, CHR 0xD0, CHR 0xB4, CHR 0xD0, CHR 0xB5]
      @ [CHR 0xD0, CHR 0xBB, CHR 0xD0, CHR 0xB5, CHR 0xD0, CHR 0xB9] @ '' ''
      @ [CHR 0xD0, CHR 0xB8] @ '' ''
      @ [CHR 0xD1, CHR 0x81, CHR 0xD0, CHR 0xBE, CHR 0xD0, CHR 0xB7, CHR 0xD0, CHR 0xB4]
      @ [CHR 0xD0, CHR 0xB0, CHR 0xD1, CHR 0x82, CHR 0xD1, CHR 0x8C] @ '' ''
      @ [CHR 0xD0, CHR 0xBE, CHR 0xD0, CHR 0xB4, CHR 0xD0, CHR 0xB8, CHR 0xD0, CHR 0xBD]
      @ '', ''
      @ [CHR 0xD0, CHR 0xBD, CHR 0xD0, CHR 0xB0, CHR 0xD0, CHR 0xB8, CHR 0xD0, CHR 0xBB]
      @ [CHR 0xD1, CHR 0x83, CHR 0xD1, CHR 0x87, CHR 0xD1, CHR 0x88, CHR 0xD0, CHR 0xB8]
      @ [CHR 0xD0, CHR 0xB9] @ '' ''
      @ [CHR 0xD0, CHR 0xB8, CHR 0xD1, CHR 0x82, CHR 0xD0, CHR 0xBE, CHR 0xD0, CHR 0xB3]
      @ [CHR 0xD0, CHR 0xBE, CHR 0xD0, CHR 0xB2, CHR 0xD1, CHR 0x8B, CHR 0xD0, CHR 0xB9]
      @ '' ''
      @ [CHR 0xD0, CHR 0xBE, CHR 0xD1, CHR 0x82, CHR 0xD0, CHR 0xB2, CHR 0xD0, CHR 0xB5]
      @ [CHR 0xD1, CHR 0x82] @ ''.''),
      ([CHR 0xD0, CHR 0x94, CHR 0xD0, CHR 0xB5, CHR 0xD0, CHR 0xB9, CHR 0xD1, CHR 0x81, CHR 0xD1, CHR 0x82, CHR 0xD0, CHR 0xB2, CHR 0xD1, CHR 0x83, CHR 0xD0, CHR 0xB9]
      @ '' ''
      @ [CHR 0xD1, CHR 0x81, CHR 0xD1, CHR 0x82, CHR 0xD1, CHR 0x80, CHR 0xD0, CHR 0xBE]
      @ [CHR 0xD0, CHR 0xB3, CHR 0xD0, CHR 0xBE] @ '' ''
      @ [CHR 0xD0, CHR 0xBF, CHR 0xD0, CHR 0xBE] @ '' ''
      @ [CHR 0xD1, CHR 0x88, CHR 0xD0, CHR 0xB0, CHR 0xD0, CHR 0xB3, CHR 0xD0, CHR 0xB0]
      @ [CHR 0xD0, CHR 0xBC] @ '':''),
      ([CHR 0x0A] @ ''**'' @ [CHR 0xD0, CHR 0xA8, CHR 0xD0, CHR 0x90, CHR 0xD0, CHR 0x93]
      @ '' 1: ''
      @ [CHR 0xD0, CHR 0x9E, CHR 0xD0, CHR 0xBF, CHR 0xD1, CHR 0x80, CHR 0xD0, CHR 0xB5]
      @ [CHR 0xD0, CHR 0xB4, CHR 0xD0, CHR 0xB5, CHR 0xD0, CHR 0xBB, CHR 0xD0, CHR 0xB8]
      @ '' ''
      @ [CHR 0xD0, CHR 0xBF, CHR 0xD1, CHR 0x80, CHR 0xD0, CHR 0xB0, CHR 0xD0, CHR 0xB2]
      @ [CHR 0xD0, CHR 0xB8, CHR 0xD0, CHR 0xBB, CHR 0xD1, CHR 0x8C, CHR 0xD0, CHR 0xBD]
      @ [CHR 0xD1, CHR 0x8B, CHR 0xD0, CHR 0xB9] @ '' ''
      @ [CHR 0xD0, CHR 0xBE, CHR 0xD1, CHR 0x82, CHR 0xD0, CHR 0xB2, CHR 0xD0, CHR 0xB5]
      @ [CHR 0xD1, CHR 0x82] @ ''.**''),
      ([CHR 0xD0, CHR 0x92, CHR 0xD0, CHR 0xBD, CHR 0xD0, CHR 0xB8, CHR 0xD0, CHR 0xBC, CHR 0xD0, CHR 0xB0, CHR 0xD1, CHR 0x82, CHR 0xD0, CHR 0xB5, CHR 0xD0, CHR 0xBB, CHR 0xD1, CHR 0x8C, CHR 0xD0, CHR 0xBD, CHR 0xD0, CHR 0xBE]
      @ '' ''
      @ [CHR 0xD0, CHR 0xB8, CHR 0xD0, CHR 0xB7, CHR 0xD1, CHR 0x83, CHR 0xD1, CHR 0x87]
      @ [CHR 0xD0, CHR 0xB8] @ '' ''
      @ [CHR 0xD0, CHR 0xBE, CHR 0xD1, CHR 0x80, CHR 0xD0, CHR 0xB8, CHR 0xD0, CHR 0xB3]
      @ [CHR 0xD0, CHR 0xB8, CHR 0xD0, CHR 0xBD, CHR 0xD0, CHR 0xB0, CHR 0xD0, CHR 0xBB]
      @ [CHR 0xD1, CHR 0x8C, CHR 0xD0, CHR 0xBD, CHR 0xD1, CHR 0x8B, CHR 0xD0, CHR 0xB9]
      @ '' ''
      @ [CHR 0xD0, CHR 0xB7, CHR 0xD0, CHR 0xB0, CHR 0xD0, CHR 0xBF, CHR 0xD1, CHR 0x80]
      @ [CHR 0xD0, CHR 0xBE, CHR 0xD1, CHR 0x81] @ '' ''
      @ [CHR 0xD0, CHR 0xBF, CHR 0xD0, CHR 0xBE, CHR 0xD0, CHR 0xBB, CHR 0xD1, CHR 0x8C]
      @ [CHR 0xD0, CHR 0xB7, CHR 0xD0, CHR 0xBE, CHR 0xD0, CHR 0xB2, CHR 0xD0, CHR 0xB0]
      @ [CHR 0xD1, CHR 0x82, CHR 0xD0, CHR 0xB5, CHR 0xD0, CHR 0xBB, CHR 0xD1, CHR 0x8F]
      @ '' '' @ [CHR 0xD0, CHR 0xB8] @ '' ''
      @ [CHR 0xD0, CHR 0xB2, CHR 0xD1, CHR 0x81, CHR 0xD0, CHR 0xB5] @ '' ''
      @ [CHR 0xD0, CHR 0xBF, CHR 0xD1, CHR 0x80, CHR 0xD0, CHR 0xB5, CHR 0xD0, CHR 0xB4]
      @ [CHR 0xD0, CHR 0xBE, CHR 0xD1, CHR 0x81, CHR 0xD1, CHR 0x82, CHR 0xD0, CHR 0xB0]
      @ [CHR 0xD0, CHR 0xB2, CHR 0xD0, CHR 0xBB, CHR 0xD0, CHR 0xB5, CHR 0xD0, CHR 0xBD]
      @ [CHR 0xD0, CHR 0xBD, CHR 0xD1, CHR 0x8B, CHR 0xD0, CHR 0xB5] @ '' ''
      @ [CHR 0xD0, CHR 0xBE, CHR 0xD1, CHR 0x82, CHR 0xD0, CHR 0xB2, CHR 0xD0, CHR 0xB5]
      @ [CHR 0xD1, CHR 0x82, CHR 0xD1, CHR 0x8B] @ ''. ''
      @ [CHR 0xD0, CHR 0x92, CHR 0xD1, CHR 0x8B, CHR 0xD1, CHR 0x87, CHR 0xD0, CHR 0xB8]
      @ [CHR 0xD1, CHR 0x81, CHR 0xD0, CHR 0xBB, CHR 0xD0, CHR 0xB8] @ '' ''
      @ [CHR 0xD0, CHR 0xB8, CHR 0xD0, CHR 0xBB, CHR 0xD0, CHR 0xB8] @ '' ''
      @ [CHR 0xD0, CHR 0xBE, CHR 0xD0, CHR 0xBF, CHR 0xD1, CHR 0x80, CHR 0xD0, CHR 0xB5]
      @ [CHR 0xD0, CHR 0xB4, CHR 0xD0, CHR 0xB5, CHR 0xD0, CHR 0xBB, CHR 0xD0, CHR 0xB8]
      @ '' ''
      @ [CHR 0xD0, CHR 0xB5, CHR 0xD0, CHR 0xB4, CHR 0xD0, CHR 0xB8, CHR 0xD0, CHR 0xBD]
      @ [CHR 0xD1, CHR 0x81, CHR 0xD1, CHR 0x82, CHR 0xD0, CHR 0xB2, CHR 0xD0, CHR 0xB5]
      @ [CHR 0xD0, CHR 0xBD, CHR 0xD0, CHR 0xBD, CHR 0xD0, CHR 0xBE] @ '' ''
      @ [CHR 0xD0, CHR 0xB2, CHR 0xD0, CHR 0xB5, CHR 0xD1, CHR 0x80, CHR 0xD0, CHR 0xBD]
      @ [CHR 0xD1, CHR 0x8B, CHR 0xD0, CHR 0xB9] @ '' '' @ [CHR 0xD0, CHR 0xB8] @ '' ''
      @ [CHR 0xD1, CHR 0x82, CHR 0xD0, CHR 0xBE, CHR 0xD1, CHR 0x87, CHR 0xD0, CHR 0xBD]
      @ [CHR 0xD1, CHR 0x8B, CHR 0xD0, CHR 0xB9] @ '' ''
      @ [CHR 0xD0, CHR 0xBE, CHR 0xD1, CHR 0x82, CHR 0xD0, CHR 0xB2, CHR 0xD0, CHR 0xB5]
      @ [CHR 0xD1, CHR 0x82] @ ''.''),
      ([CHR 0x0A] @ ''**'' @ [CHR 0xD0, CHR 0xA8, CHR 0xD0, CHR 0x90, CHR 0xD0, CHR 0x93]
      @ '' 2: ''
      @ [CHR 0xD0, CHR 0xA1, CHR 0xD1, CHR 0x84, CHR 0xD0, CHR 0xBE, CHR 0xD1, CHR 0x80]
      @ [CHR 0xD0, CHR 0xBC, CHR 0xD0, CHR 0xB8, CHR 0xD1, CHR 0x80, CHR 0xD1, CHR 0x83]
      @ [CHR 0xD0, CHR 0xB9] @ '' ''
      @ [CHR 0xD1, CHR 0x84, CHR 0xD0, CHR 0xB8, CHR 0xD0, CHR 0xBD, CHR 0xD0, CHR 0xB0]
      @ [CHR 0xD0, CHR 0xBB, CHR 0xD1, CHR 0x8C, CHR 0xD0, CHR 0xBD, CHR 0xD1, CHR 0x8B]
      @ [CHR 0xD0, CHR 0xB9] @ '' ''
      @ [CHR 0xD0, CHR 0xBE, CHR 0xD1, CHR 0x82, CHR 0xD0, CHR 0xB2, CHR 0xD0, CHR 0xB5]
      @ [CHR 0xD1, CHR 0x82] @ ''.**''),
      ([CHR 0xD0, CHR 0x9D, CHR 0xD0, CHR 0xB0, CHR 0xD0, CHR 0xBF, CHR 0xD0, CHR 0xB8, CHR 0xD1, CHR 0x88, CHR 0xD0, CHR 0xB8]
      @ '' ''
      @ [CHR 0xD0, CHR 0xB8, CHR 0xD1, CHR 0x81, CHR 0xD1, CHR 0x87, CHR 0xD0, CHR 0xB5]
      @ [CHR 0xD1, CHR 0x80, CHR 0xD0, CHR 0xBF, CHR 0xD1, CHR 0x8B, CHR 0xD0, CHR 0xB2]
      @ [CHR 0xD0, CHR 0xB0, CHR 0xD1, CHR 0x8E, CHR 0xD1, CHR 0x89, CHR 0xD0, CHR 0xB8]
      @ [CHR 0xD0, CHR 0xB9] @ '', ''
      @ [CHR 0xD1, CHR 0x82, CHR 0xD0, CHR 0xBE, CHR 0xD1, CHR 0x87, CHR 0xD0, CHR 0xBD]
      @ [CHR 0xD1, CHR 0x8B, CHR 0xD0, CHR 0xB9] @ '' '' @ [CHR 0xD0, CHR 0xB8] @ '' ''
      @ [CHR 0xD1, CHR 0x85, CHR 0xD0, CHR 0xBE, CHR 0xD1, CHR 0x80, CHR 0xD0, CHR 0xBE]
      @ [CHR 0xD1, CHR 0x88, CHR 0xD0, CHR 0xBE] @ '' ''
      @ [CHR 0xD0, CHR 0xBE, CHR 0xD1, CHR 0x82, CHR 0xD1, CHR 0x84, CHR 0xD0, CHR 0xBE]
      @ [CHR 0xD1, CHR 0x80, CHR 0xD0, CHR 0xBC, CHR 0xD0, CHR 0xB0, CHR 0xD1, CHR 0x82]
      @ [CHR 0xD0, CHR 0xB8, CHR 0xD1, CHR 0x80, CHR 0xD0, CHR 0xBE, CHR 0xD0, CHR 0xB2]
      @ [CHR 0xD0, CHR 0xB0, CHR 0xD0, CHR 0xBD, CHR 0xD0, CHR 0xBD, CHR 0xD1, CHR 0x8B]
      @ [CHR 0xD0, CHR 0xB9] @ '' ''
      @ [CHR 0xD0, CHR 0xBE, CHR 0xD1, CHR 0x82, CHR 0xD0, CHR 0xB2, CHR 0xD0, CHR 0xB5]
      @ [CHR 0xD1, CHR 0x82] @ '' ''
      @ [CHR 0xD0, CHR 0xB4, CHR 0xD0, CHR 0xBB, CHR 0xD1, CHR 0x8F] @ '' ''
      @ [CHR 0xD0, CHR 0xBF, CHR 0xD0, CHR 0xBE, CHR 0xD0, CHR 0xBB, CHR 0xD1, CHR 0x8C]
      @ [CHR 0xD0, CHR 0xB7, CHR 0xD0, CHR 0xBE, CHR 0xD0, CHR 0xB2, CHR 0xD0, CHR 0xB0]
      @ [CHR 0xD1, CHR 0x82, CHR 0xD0, CHR 0xB5, CHR 0xD0, CHR 0xBB, CHR 0xD1, CHR 0x8F]
      @ ''. ''
      @ [CHR 0xD0, CHR 0x98, CHR 0xD1, CHR 0x81, CHR 0xD0, CHR 0xBF, CHR 0xD0, CHR 0xBE]
      @ [CHR 0xD0, CHR 0xBB, CHR 0xD1, CHR 0x8C, CHR 0xD0, CHR 0xB7, CHR 0xD1, CHR 0x83]
      @ [CHR 0xD0, CHR 0xB9] @ '' ''
      @ [CHR 0xD0, CHR 0xBB, CHR 0xD1, CHR 0x83, CHR 0xD1, CHR 0x87, CHR 0xD1, CHR 0x88]
      @ [CHR 0xD0, CHR 0xB8, CHR 0xD0, CHR 0xB5] @ '' ''
      @ [CHR 0xD0, CHR 0xB8, CHR 0xD0, CHR 0xB4, CHR 0xD0, CHR 0xB5, CHR 0xD0, CHR 0xB8]
      @ '' '' @ [CHR 0xD0, CHR 0xB8] @ '' ''
      @ [CHR 0xD1, CHR 0x84, CHR 0xD0, CHR 0xB0, CHR 0xD0, CHR 0xBA, CHR 0xD1, CHR 0x82]
      @ [CHR 0xD1, CHR 0x8B] @ '' '' @ [CHR 0xD0, CHR 0xB8, CHR 0xD0, CHR 0xB7] @ '' ''
      @ [CHR 0xD0, CHR 0xBE, CHR 0xD1, CHR 0x82, CHR 0xD0, CHR 0xB2, CHR 0xD0, CHR 0xB5]
      @ [CHR 0xD1, CHR 0x82, CHR 0xD0, CHR 0xBE, CHR 0xD0, CHR 0xB2] @ ''-''
      @ [CHR 0xD1, CHR 0x83, CHR 0xD1, CHR 0x87, CHR 0xD0, CHR 0xB0, CHR 0xD1, CHR 0x81]
      @ [CHR 0xD1, CHR 0x82, CHR 0xD0, CHR 0xBD, CHR 0xD0, CHR 0xB8, CHR 0xD0, CHR 0xBA]
      @ [CHR 0xD0, CHR 0xBE, CHR 0xD0, CHR 0xB2] @ '', ''
      @ [CHR 0xD0, CHR 0xBD, CHR 0xD0, CHR 0xBE] @ '' ''
      @ [CHR 0xD0, CHR 0xB8, CHR 0xD0, CHR 0xB7, CHR 0xD0, CHR 0xBB, CHR 0xD0, CHR 0xBE]
      @ [CHR 0xD0, CHR 0xB6, CHR 0xD0, CHR 0xB8] @ '' ''
      @ [CHR 0xD0, CHR 0xB8, CHR 0xD1, CHR 0x85] @ '' ''
      @ [CHR 0xD1, CHR 0x81, CHR 0xD0, CHR 0xB2, CHR 0xD0, CHR 0xBE, CHR 0xD0, CHR 0xB8]
      @ [CHR 0xD0, CHR 0xBC, CHR 0xD0, CHR 0xB8] @ '' ''
      @ [CHR 0xD1, CHR 0x81, CHR 0xD0, CHR 0xBB, CHR 0xD0, CHR 0xBE, CHR 0xD0, CHR 0xB2]
      @ [CHR 0xD0, CHR 0xB0, CHR 0xD0, CHR 0xBC, CHR 0xD0, CHR 0xB8] @ ''. ''
      @ [CHR 0xD0, CHR 0x9D, CHR 0xD0, CHR 0xB5] @ '' ''
      @ [CHR 0xD1, CHR 0x83, CHR 0xD0, CHR 0xBF, CHR 0xD0, CHR 0xBE, CHR 0xD0, CHR 0xBC]
      @ [CHR 0xD0, CHR 0xB8, CHR 0xD0, CHR 0xBD, CHR 0xD0, CHR 0xB0, CHR 0xD0, CHR 0xB9]
      @ '' ''
      @ [CHR 0xD0, CHR 0xB4, CHR 0xD1, CHR 0x80, CHR 0xD1, CHR 0x83, CHR 0xD0, CHR 0xB3]
      @ [CHR 0xD0, CHR 0xB8, CHR 0xD0, CHR 0xB5] @ '' ''
      @ [CHR 0xD0, CHR 0xBC, CHR 0xD0, CHR 0xBE, CHR 0xD0, CHR 0xB4, CHR 0xD0, CHR 0xB5]
      @ [CHR 0xD0, CHR 0xBB, CHR 0xD0, CHR 0xB8] @ '' '' @ [CHR 0xD0, CHR 0xB2] @ '' ''
      @ [CHR 0xD1, CHR 0x8D, CHR 0xD1, CHR 0x82, CHR 0xD0, CHR 0xBE, CHR 0xD0, CHR 0xB9]
      @ '' ''
      @ [CHR 0xD1, CHR 0x87, CHR 0xD0, CHR 0xB0, CHR 0xD1, CHR 0x81, CHR 0xD1, CHR 0x82]
      @ [CHR 0xD0, CHR 0xB8] @ ''.''),
      ([CHR 0x0A] @ ''**'' @ [CHR 0xD0, CHR 0xA8, CHR 0xD0, CHR 0x90, CHR 0xD0, CHR 0x93]
      @ '' 3: ''
      @ [CHR 0xD0, CHR 0x9F, CHR 0xD1, CHR 0x80, CHR 0xD0, CHR 0xBE, CHR 0xD0, CHR 0xB2]
      @ [CHR 0xD0, CHR 0xB5, CHR 0xD0, CHR 0xB4, CHR 0xD0, CHR 0xB8] @ '' ''
      @ [CHR 0xD0, CHR 0xB0, CHR 0xD0, CHR 0xBD, CHR 0xD0, CHR 0xB0, CHR 0xD0, CHR 0xBB]
      @ [CHR 0xD0, CHR 0xB8, CHR 0xD0, CHR 0xB7] @ '' ''
      @ [CHR 0xD0, CHR 0xB8, CHR 0xD1, CHR 0x81, CHR 0xD1, CHR 0x82, CHR 0xD0, CHR 0xBE]
      @ [CHR 0xD1, CHR 0x87, CHR 0xD0, CHR 0xBD, CHR 0xD0, CHR 0xB8, CHR 0xD0, CHR 0xBA]
      @ [CHR 0xD0, CHR 0xBE, CHR 0xD0, CHR 0xB2] @ ''.**''),
      ([CHR 0xD0, CHR 0x9F, CHR 0xD0, CHR 0xBE, CHR 0xD1, CHR 0x81, CHR 0xD0, CHR 0xBB, CHR 0xD0, CHR 0xB5]
      @ '' ''
      @ [CHR 0xD1, CHR 0x84, CHR 0xD0, CHR 0xB8, CHR 0xD0, CHR 0xBD, CHR 0xD0, CHR 0xB0]
      @ [CHR 0xD0, CHR 0xBB, CHR 0xD1, CHR 0x8C, CHR 0xD0, CHR 0xBD, CHR 0xD0, CHR 0xBE]
      @ [CHR 0xD0, CHR 0xB3, CHR 0xD0, CHR 0xBE] @ '' ''
      @ [CHR 0xD0, CHR 0xBE, CHR 0xD1, CHR 0x82, CHR 0xD0, CHR 0xB2, CHR 0xD0, CHR 0xB5]
      @ [CHR 0xD1, CHR 0x82, CHR 0xD0, CHR 0xB0] @ '' ''
      @ [CHR 0xD0, CHR 0xBF, CHR 0xD0, CHR 0xBE, CHR 0xD1, CHR 0x81, CHR 0xD1, CHR 0x82]
      @ [CHR 0xD0, CHR 0xB0, CHR 0xD0, CHR 0xB2, CHR 0xD1, CHR 0x8C] @ '' ''
      @ [CHR 0xD1, CHR 0x80, CHR 0xD0, CHR 0xB0, CHR 0xD0, CHR 0xB7, CHR 0xD0, CHR 0xB4]
      @ [CHR 0xD0, CHR 0xB5, CHR 0xD0, CHR 0xBB, CHR 0xD0, CHR 0xB8, CHR 0xD1, CHR 0x82]
      @ [CHR 0xD0, CHR 0xB5, CHR 0xD0, CHR 0xBB, CHR 0xD1, CHR 0x8C] @ '' '' @ [CHR 0x60]
      @ ''---'' @ [CHR 0x60] @ ''. ''
      @ [CHR 0xD0, CHR 0x97, CHR 0xD0, CHR 0xB0, CHR 0xD1, CHR 0x82, CHR 0xD0, CHR 0xB5]
      @ [CHR 0xD0, CHR 0xBC] @ '' ''
      @ [CHR 0xD0, CHR 0xBA, CHR 0xD1, CHR 0x80, CHR 0xD0, CHR 0xB0, CHR 0xD1, CHR 0x82]
      @ [CHR 0xD0, CHR 0xBA, CHR 0xD0, CHR 0xBE] @ '' '' @ [CHR 0xD0, CHR 0xB8] @ '' ''
      @ [CHR 0xD0, CHR 0xBE, CHR 0xD0, CHR 0xB1, CHR 0xD1, CHR 0x8A, CHR 0xD0, CHR 0xB5]
      @ [CHR 0xD0, CHR 0xBA, CHR 0xD1, CHR 0x82, CHR 0xD0, CHR 0xB8, CHR 0xD0, CHR 0xB2]
      @ [CHR 0xD0, CHR 0xBD, CHR 0xD0, CHR 0xBE] @ '' ''
      @ [CHR 0xD0, CHR 0xBF, CHR 0xD1, CHR 0x80, CHR 0xD0, CHR 0xBE, CHR 0xD0, CHR 0xB0]
      @ [CHR 0xD0, CHR 0xBD, CHR 0xD0, CHR 0xB0, CHR 0xD0, CHR 0xBB, CHR 0xD0, CHR 0xB8]
      @ [CHR 0xD0, CHR 0xB7, CHR 0xD0, CHR 0xB8, CHR 0xD1, CHR 0x80, CHR 0xD1, CHR 0x83]
      @ [CHR 0xD0, CHR 0xB9] @ '' ''
      @ [CHR 0xD0, CHR 0xBE, CHR 0xD1, CHR 0x82, CHR 0xD0, CHR 0xB2, CHR 0xD0, CHR 0xB5]
      @ [CHR 0xD1, CHR 0x82, CHR 0xD1, CHR 0x8B] @ '' ''
      @ [CHR 0xD1, CHR 0x83, CHR 0xD1, CHR 0x87, CHR 0xD0, CHR 0xB0, CHR 0xD1, CHR 0x81]
      @ [CHR 0xD1, CHR 0x82, CHR 0xD0, CHR 0xBD, CHR 0xD0, CHR 0xB8, CHR 0xD0, CHR 0xBA]
      @ [CHR 0xD0, CHR 0xBE, CHR 0xD0, CHR 0xB2] @ ''. ''
      @ [CHR 0xD0, CHR 0xA3, CHR 0xD0, CHR 0xBA, CHR 0xD0, CHR 0xB0, CHR 0xD0, CHR 0xB6]
      @ [CHR 0xD0, CHR 0xB8] @ '', ''
      @ [CHR 0xD0, CHR 0xBA, CHR 0xD1, CHR 0x82, CHR 0xD0, CHR 0xBE] @ '' ''
      @ [CHR 0xD0, CHR 0xB1, CHR 0xD1, CHR 0x8B, CHR 0xD0, CHR 0xBB] @ '' ''
      @ [CHR 0xD0, CHR 0xBF, CHR 0xD1, CHR 0x80, CHR 0xD0, CHR 0xB0, CHR 0xD0, CHR 0xB2]
      @ '', '' @ [CHR 0xD0, CHR 0xBA, CHR 0xD1, CHR 0x82, CHR 0xD0, CHR 0xBE] @ '' ''
      @ [CHR 0xD0, CHR 0xBE, CHR 0xD1, CHR 0x88, CHR 0xD0, CHR 0xB8, CHR 0xD0, CHR 0xB1]
      @ [CHR 0xD1, CHR 0x81, CHR 0xD1, CHR 0x8F] @ '' '' @ [CHR 0xD0, CHR 0xB8] @ '' ''
      @ [CHR 0xD0, CHR 0xBF, CHR 0xD0, CHR 0xBE, CHR 0xD1, CHR 0x87, CHR 0xD0, CHR 0xB5]
      @ [CHR 0xD0, CHR 0xBC, CHR 0xD1, CHR 0x83] @ ''. ''
      @ [CHR 0xD0, CHR 0xA2, CHR 0xD0, CHR 0xB2, CHR 0xD0, CHR 0xBE, CHR 0xD0, CHR 0xB9]
      @ '' ''
      @ [CHR 0xD0, CHR 0xB0, CHR 0xD0, CHR 0xBD, CHR 0xD0, CHR 0xB0, CHR 0xD0, CHR 0xBB]
      @ [CHR 0xD0, CHR 0xB8, CHR 0xD0, CHR 0xB7] @ '' ''
      @ [CHR 0xD0, CHR 0xB4, CHR 0xD0, CHR 0xBE, CHR 0xD0, CHR 0xBB, CHR 0xD0, CHR 0xB6]
      @ [CHR 0xD0, CHR 0xB5, CHR 0xD0, CHR 0xBD] @ '' ''
      @ [CHR 0xD0, CHR 0xB1, CHR 0xD1, CHR 0x8B, CHR 0xD1, CHR 0x82, CHR 0xD1, CHR 0x8C]
      @ '' ''
      @ [CHR 0xD0, CHR 0xBF, CHR 0xD0, CHR 0xBE, CHR 0xD0, CHR 0xBB, CHR 0xD0, CHR 0xBD]
      @ [CHR 0xD0, CHR 0xBE, CHR 0xD1, CHR 0x81, CHR 0xD1, CHR 0x82, CHR 0xD1, CHR 0x8C]
      @ [CHR 0xD1, CHR 0x8E] @ '' ''
      @ [CHR 0xD0, CHR 0xBA, CHR 0xD0, CHR 0xBE, CHR 0xD0, CHR 0xBD, CHR 0xD1, CHR 0x81]
      @ [CHR 0xD0, CHR 0xB8, CHR 0xD1, CHR 0x81, CHR 0xD1, CHR 0x82, CHR 0xD0, CHR 0xB5]
      @ [CHR 0xD0, CHR 0xBD, CHR 0xD1, CHR 0x82, CHR 0xD0, CHR 0xB5, CHR 0xD0, CHR 0xBD]
      @ '' '' @ [CHR 0xD1, CHR 0x81] @ '' ''
      @ [CHR 0xD1, CHR 0x84, CHR 0xD0, CHR 0xB8, CHR 0xD0, CHR 0xBD, CHR 0xD0, CHR 0xB0]
      @ [CHR 0xD0, CHR 0xBB, CHR 0xD1, CHR 0x8C, CHR 0xD0, CHR 0xBD, CHR 0xD1, CHR 0x8B]
      @ [CHR 0xD0, CHR 0xBC] @ '' ''
      @ [CHR 0xD0, CHR 0xBE, CHR 0xD1, CHR 0x82, CHR 0xD0, CHR 0xB2, CHR 0xD0, CHR 0xB5]
      @ [CHR 0xD1, CHR 0x82, CHR 0xD0, CHR 0xBE, CHR 0xD0, CHR 0xBC] @ '', ''
      @ [CHR 0xD0, CHR 0xBA, CHR 0xD0, CHR 0xBE, CHR 0xD1, CHR 0x82, CHR 0xD0, CHR 0xBE]
      @ [CHR 0xD1, CHR 0x80, CHR 0xD1, CHR 0x8B, CHR 0xD0, CHR 0xB9] @ '' ''
      @ [CHR 0xD1, CHR 0x82, CHR 0xD1, CHR 0x8B] @ '' ''
      @ [CHR 0xD0, CHR 0xB4, CHR 0xD0, CHR 0xB0, CHR 0xD0, CHR 0xBB] @ '' ''
      @ [CHR 0xD0, CHR 0xBD, CHR 0xD0, CHR 0xB0] @ '' ''
      @ [CHR 0xD0, CHR 0xA8, CHR 0xD0, CHR 0x90, CHR 0xD0, CHR 0x93, CHR 0xD0, CHR 0x95]
      @ '' 2.'')
     ]"


text \<open>\<^verbatim>\<open>"\n".join(parts)\<close>.\<close>

fun join_lines :: "string list \<Rightarrow> string" where
  "join_lines [] = []"
| "join_lines [p] = p"
| "join_lines (p # q # ps) = p @ [CHR 0x0A] @ join_lines (q # ps)"

text \<open>
  \<^verbatim>\<open>hcode\<close> of aiogram: the text, HTML-escaped (\<^verbatim>\<open>&\<close>, \<^verbatim>\<open><\<close>, \<^verbatim>\<open>>\<close>), inside a
  \<^verbatim>\<open>code\<close> tag.
\<close>

definition html_quote :: "string \<Rightarrow> string" where
  "html_quote s = concat (map (\<lambda>c. if c = CHR ''&'' then ''&amp;''
                                     else if c = CHR ''<'' then ''&lt;''
                                     else if c = CHR ''>'' then ''&gt;'' else [c]) s)"

definition hcode :: "string \<Rightarrow> string" where
  "hcode s = ''<code>'' @ html_quote s @ ''</code>''"


section \<open>Profile cache (app/services/user_service.py)\<close>

definition invalidate_user_cache :: "instant \<Rightarrow> int \<Rightarrow> cache \<Rightarrow> cache" where
  "invalidate_user_cache now uid c =
     (case user_details c of
        None \<Rightarrow> c
      | Some user_cache \<Rightarrow>
          if ud_get now user_cache uid \<noteq> None
          then c\<lparr>user_details := Some (ud_del uid user_cache)\<rparr> else c)"

definition get_user_details_cached ::
  "instant \<Rightarrow> int \<Rightarrow> database \<Rightarrow> cache \<Rightarrow> user_row option \<times> cache" where
  "get_user_details_cached now uid db c =
     (case user_details c of
        None \<Rightarrow> (get_user_details db uid, c)
      | Some user_cache \<Rightarrow>
          (case ud_get now user_cache uid of
             Some details \<Rightarrow> (Some details, c)
           | None \<Rightarrow>
               (case get_user_details db uid of
                  None \<Rightarrow> (None, c)
                | Some details \<Rightarrow>
                    (Some details, c\<lparr>user_details := Some (ud_set now uid details user_cache)\<rparr>))))"


section \<open>Single calls and the ensemble (app/services/ai_service.py)\<close>

text \<open>
  \<open>get_simple_response\<close> returns the text and the time the call took, or raises what the
  client raised. A response without content gives the empty text.
\<close>

definition get_simple_response ::
  "env \<Rightarrow> instant \<Rightarrow> string \<Rightarrow> message list \<Rightarrow> int \<Rightarrow> world
     \<Rightarrow> (exn + string \<times> nat) \<times> world" where
  "get_simple_response e now model_name messages uid w =
     (let (details, c) = get_user_details_cached now uid (w_db w) (w_cache w);
          instruction = (case details of
                           None \<Rightarrow> None
                         | Some d \<Rightarrow> (case user_instruction d of
                                        None \<Rightarrow> None
                                      | Some i \<Rightarrow> if i = [] then None else Some i));
          temperature = (case details of
                           None \<Rightarrow> DEFAULT_TEMPERATURE
                         | Some d \<Rightarrow> (case user_temperature d of
                                        None \<Rightarrow> DEFAULT_TEMPERATURE
                                      | Some t \<Rightarrow> t));
          final_messages =
            [(''system'', GLOBAL_SYSTEM_PROMPT)]
            @ (case instruction of
                 None \<Rightarrow> []
               | Some i \<Rightarrow> [(''system'', user_instruction_prefix @ i)])
            @ messages;
          request = \<lparr>cr_model = model_name, cr_messages = final_messages,
                     cr_temperature = temperature, cr_max_tokens = None, cr_timeout = 120\<rparr>;
          w1 = w\<lparr>w_cache := c, api_log := api_log w @ [ChatCompletionsCreate request]\<rparr>
      in case chat_completions_create e request of
           Response None duration \<Rightarrow> (Inr ([], duration), w1)
         | Response (Some response_text) duration \<Rightarrow> (Inr (response_text, duration), w1)
         | Raises x \<Rightarrow> (Inl x, w1))"

text \<open>
  The result of a participant: its text, or the error text with the name of the exception
  type. The text is optional because the caller tests it against None.
\<close>

definition get_participant_response ::
  "env \<Rightarrow> instant \<Rightarrow> string \<Rightarrow> string \<Rightarrow> int \<Rightarrow> world
     \<Rightarrow> (string \<times> string option) \<times> world" where
  "get_participant_response e now model_name prompt uid w =
     (case get_simple_response e now model_name [(''user'', prompt)] uid w of
        (Inr (response, duration), w1) \<Rightarrow> ((model_name, Some response), w1)
      | (Inl x, w1) \<Rightarrow>
          ((model_name, Some (participant_error_prefix @ exn_type_name x @ '')'')), w1))"

text \<open>
  \<^verbatim>\<open>asyncio.gather\<close> over the participants: each outcome depends on the request only, so
  the participants are run one after the other.
\<close>

fun gather_participants ::
  "env \<Rightarrow> instant \<Rightarrow> string list \<Rightarrow> string \<Rightarrow> int \<Rightarrow> world
     \<Rightarrow> (string \<times> string option) list \<times> world" where
  "gather_participants e now [] prompt uid w = ([], w)"
| "gather_participants e now (m # ms) prompt uid w =
     (let (r, w1) = get_participant_response e now m prompt uid w;
          (rs, w2) = gather_participants e now ms prompt uid w1
      in (r # rs, w2))"

definition meta_prompt_start :: "string \<Rightarrow> string list" where
  "meta_prompt_start prompt =
     arbiter_instructions
     @ [[CHR 0x0A] @ ''---'',
        original_request_heading @ prompt @ [CHR 0x0A],
        ''---'',
        participants_heading]"

text \<open>The loop over the participant results: the parts of the prompt and the success count.\<close>

definition safe_text :: "string option \<Rightarrow> string" where
  "safe_text response_text = (case response_text of Some t \<Rightarrow> t | None \<Rightarrow> no_text_error)"

definition answer_part :: "string \<Rightarrow> string \<Rightarrow> string" where
  "answer_part model_name safe_response_text =
     answer_heading @ hcode model_name @ answer_heading_end @ safe_response_text @ answer_end"

fun collect_responses ::
  "(string \<times> string option) list \<Rightarrow> string list \<times> nat \<Rightarrow> string list \<times> nat" where
  "collect_responses [] acc = acc"
| "collect_responses ((model_name, response_text) # rs) (meta_prompt_parts, successful_responses) =
     (let safe_response_text = safe_text response_text;
          parts = meta_prompt_parts @ [answer_part model_name safe_response_text]
      in collect_responses rs
           (parts, if \<not> prefix error_marker safe_response_text
                   then successful_responses + 1 else successful_responses))"

text \<open>
  \<open>now\<close> is the instant at which the run starts and \<open>finish\<close> the instant at which the
  arbiter has answered; the duration returned is their difference.
\<close>

definition get_max_mode_response ::
  "env \<Rightarrow> instant \<Rightarrow> instant \<Rightarrow> string \<Rightarrow> int \<Rightarrow> world
     \<Rightarrow> (exn + string \<times> int) \<times> world" where
  "get_max_mode_response e now finish prompt uid w =
     (let (participant_results, w1) =
            gather_participants e now MAX_MODE_PARTICIPANTS prompt uid w;
          (meta_prompt_parts, successful_responses) =
            collect_responses participant_results (meta_prompt_start prompt, 0)
      in if successful_responses = 0
         then (Inl (Exn RuntimeError ''RuntimeError'' all_failed_message), w1)
         else
           (let meta_prompt = join_lines (meta_prompt_parts @ [result_heading])
            in case get_simple_response e now MAX_MODE_ARBITER [(''user'', meta_prompt)] uid w1 of
                 (Inr (final_response_text, duration), w2) \<Rightarrow>
                   (Inr (final_response_text, finish - now), w2)
               | (Inl x, w2) \<Rightarrow>
                   (Inl (Exn RuntimeError ''RuntimeError''
                          (arbiter_failed_prefix @ MAX_MODE_ARBITER @ arbiter_failed_suffix)), w2)))"

text \<open>The model that a backend call addresses.\<close>

fun call_model :: "api_call \<Rightarrow> string" where
  "call_model (ChatCompletionsCreate r) = cr_model r"
| "call_model (ImagesGenerations m) = m"



section \<open>Chat handlers (app/handlers/chat.py)\<close>

text \<open>
  What a handler does beyond the store and the cache: the messages it sends or edits, and
  the background animation task that it starts and cancels.
\<close>

datatype event = SendMessage outgoing | EditText outgoing | StartAnimation | CancelAnimation

text \<open>
  The conversation state of the user (aiogram's FSM context). The chat handler runs in the
  state \<^verbatim>\<open>Chat.in_progress\<close>, which is entered with a model chosen.
\<close>

record fsm_context =
  fsm_state :: "string option"
  fsm_model :: string
  fsm_history :: "message list"

definition state_clear :: "fsm_context \<Rightarrow> fsm_context" where
  "state_clear fsm = \<lparr>fsm_state = None, fsm_model = [], fsm_history = []\<rparr>"

text \<open>
  The result of a handler: the world and the conversation state it leaves, what it did, and
  the exception with which it ended, if any.
\<close>

record handler_result =
  hr_world :: world
  hr_fsm :: fsm_context
  hr_events :: "event list"
  hr_raised :: "exn option"

definition send_limit_reached_message ::
  "int list \<Rightarrow> instant \<Rightarrow> int \<Rightarrow> world \<Rightarrow> event list \<times> world" where
  "send_limit_reached_message admins now uid w =
     (let (details, c) = get_user_details_cached now uid (w_db w) (w_cache w);
          has_bonus = (case details of None \<Rightarrow> False | Some d \<Rightarrow> has_rewarded_bonus d);
          (user_level, db1) = get_user_level admins now uid (w_db w);
          w1 = w\<lparr>w_db := db1, w_cache := c\<rparr>
      in if user_level = 0 \<and> \<not> has_bonus then ([SendMessage RewardOffer], w1)
         else ([SendMessage LimitReachedNotice], w1))"

text \<open>\<^verbatim>\<open>history[-10:]\<close>.\<close>

definition last_ten :: "'a list \<Rightarrow> 'a list" where
  "last_ten xs = drop (length xs - 10) xs"

text \<open>
  The two \<^verbatim>\<open>except\<close> clauses of \<open>handle_chat_message\<close>, entered with the exception
  raised in the \<^verbatim>\<open>try\<close> block, the local \<open>history\<close> and what the handler has done so far.
  The first clause catches \<^verbatim>\<open>(APIError, RuntimeError)\<close>, the second every other exception.
\<close>

definition is_provider_error :: "exn \<Rightarrow> bool" where
  "is_provider_error x =
     (case exn_class x of APIError status_code \<Rightarrow> True | RuntimeError \<Rightarrow> True | _ \<Rightarrow> False)"

definition chat_except ::
  "env \<Rightarrow> instant \<Rightarrow> string \<Rightarrow> exn \<Rightarrow> message list \<Rightarrow> fsm_context \<Rightarrow> world \<Rightarrow> event list
     \<Rightarrow> handler_result" where
  "chat_except e t1 model_name x history fsm w events =
     (if is_provider_error x then
        \<lparr>hr_world = w\<lparr>w_cache := set_model_failed_in_cache t1 model_name (w_cache w)\<rparr>,
         hr_fsm = fsm\<lparr>fsm_history := butlast history\<rparr>,
         hr_events = events @ [CancelAnimation, EditText (ModelFailedNotice model_name)],
         hr_raised = edit_text e (ModelFailedNotice model_name)\<rparr>
      else
        \<lparr>hr_world = w,
         hr_fsm = fsm\<lparr>fsm_history := butlast history\<rparr>,
         hr_events = events @ [CancelAnimation, EditText (UnexpectedErrorNotice (exn_str x))],
         hr_raised = edit_text e (UnexpectedErrorNotice (exn_str x))\<rparr>)"

text \<open>
  \<open>t0\<close> is the instant at which the handler starts and \<open>t1\<close> the instant at which the
  backend call has returned or raised.
\<close>

definition handle_chat_message ::
  "env \<Rightarrow> int list \<Rightarrow> instant \<Rightarrow> instant \<Rightarrow> int \<Rightarrow> string \<Rightarrow> fsm_context \<Rightarrow> world
     \<Rightarrow> handler_result" where
  "handle_chat_message e admins t0 t1 uid message_text fsm w =
     (let (details, c1) = get_user_details_cached t0 uid (w_db w) (w_cache w);
          w1 = w\<lparr>w_cache := c1\<rparr>
      in if (case details of None \<Rightarrow> False | Some d \<Rightarrow> is_blocked d) then
           \<lparr>hr_world = w1, hr_fsm = fsm, hr_events = [SendMessage BlockedNotice],
            hr_raised = None\<rparr>
         else
           (let ((daily_limit, max_mode_limit), db2) = get_user_limits admins t0 uid (w_db w1);
                w2 = w1\<lparr>w_db := db2\<rparr>;
                requests_today = get_user_requests_today t0 uid False db2
            in if enat requests_today \<ge> daily_limit then
                 (let (events, w3) = send_limit_reached_message admins t0 uid w2
                  in \<lparr>hr_world = w3, hr_fsm = state_clear fsm, hr_events = events,
                      hr_raised = None\<rparr>)
               else
                 (let model_name = fsm_model fsm;
                      history = fsm_history fsm
                  in if \<not> is_model_available t0 model_name (w_cache w2) then
                       \<lparr>hr_world = w2, hr_fsm = fsm,
                        hr_events = [SendMessage (ModelUnavailableNotice model_name)],
                        hr_raised = None\<rparr>
                     else
                       (let started = [SendMessage Thinking, StartAnimation];
                            history1 = history @ [(''user'', message_text)]
                        in case get_simple_response e t0 model_name history1 uid w2 of
                             (Inl x, w3) \<Rightarrow> chat_except e t1 model_name x history1 fsm w3 started
                           | (Inr (response_text, duration), w3) \<Rightarrow>
                               (let history2 = history1 @ [(''assistant'', response_text)];
                                    fsm1 = fsm\<lparr>fsm_history := last_ten history2\<rparr>;
                                    w4 = w3\<lparr>w_db := add_request t1 uid model_name False (w_db w3)\<rparr>;
                                    temp = (case details of
                                              None \<Rightarrow> DEFAULT_TEMPERATURE
                                            | Some d \<Rightarrow> (case user_temperature d of
                                                           None \<Rightarrow> DEFAULT_TEMPERATURE
                                                         | Some t \<Rightarrow> t));
                                    reply = Reply response_text model_name temp duration;
                                    events = started @ [CancelAnimation, EditText reply]
                                in case edit_text e reply of
                                     None \<Rightarrow>
                                       \<lparr>hr_world = w4, hr_fsm = fsm1, hr_events = events,
                                        hr_raised = None\<rparr>
                                   | Some y \<Rightarrow>
                                       chat_except e t1 model_name y history2 fsm1 w4 events)))))"

text \<open>The two \<^verbatim>\<open>except\<close> clauses of \<open>handle_max_mode_message\<close>.\<close>

definition max_mode_except ::
  "env \<Rightarrow> exn \<Rightarrow> fsm_context \<Rightarrow> world \<Rightarrow> event list \<Rightarrow> handler_result" where
  "max_mode_except e x fsm w events =
     (case exn_class x of
        RuntimeError \<Rightarrow>
          \<lparr>hr_world = w, hr_fsm = fsm,
           hr_events = events @ [CancelAnimation, EditText (MaxModeRuntimeErrorNotice (exn_str x))],
           hr_raised = edit_text e (MaxModeRuntimeErrorNotice (exn_str x))\<rparr>
      | _ \<Rightarrow>
          \<lparr>hr_world = w, hr_fsm = fsm,
           hr_events = events
             @ [CancelAnimation, EditText (MaxModeUnexpectedErrorNotice (exn_str x))],
           hr_raised = edit_text e (MaxModeUnexpectedErrorNotice (exn_str x))\<rparr>)"

definition handle_max_mode_message ::
  "env \<Rightarrow> int list \<Rightarrow> instant \<Rightarrow> instant \<Rightarrow> int \<Rightarrow> string \<Rightarrow> fsm_context \<Rightarrow> world
     \<Rightarrow> handler_result" where
  "handle_max_mode_message e admins t0 t1 uid message_text fsm w =
     (if \<not> are_max_mode_models_available t0 (w_cache w) then
        \<lparr>hr_world = w, hr_fsm = state_clear fsm,
         hr_events = [SendMessage MaxModeUnavailableNotice], hr_raised = None\<rparr>
      else
        (let ((daily_limit, max_mode_limit), db1) = get_user_limits admins t0 uid (w_db w);
             w1 = w\<lparr>w_db := db1\<rparr>;
             requests_today = get_user_requests_today t0 uid True db1
         in if enat requests_today \<ge> max_mode_limit then
              \<lparr>hr_world = w1, hr_fsm = state_clear fsm,
               hr_events = [SendMessage MaxModeLimitNotice], hr_raised = None\<rparr>
            else
              (let started = [SendMessage MaxModeProcessing, StartAnimation]
               in case get_max_mode_response e t0 t1 message_text uid w1 of
                    (Inl x, w2) \<Rightarrow> max_mode_except e x fsm w2 started
                  | (Inr (response_text, duration), w2) \<Rightarrow>
                      (let w3 = w2\<lparr>w_db := add_request t1 uid ''max_mode_ensemble'' True (w_db w2)\<rparr>;
                           reply = MaxModeReply response_text duration;
                           events = started @ [CancelAnimation, EditText reply]
                       in case edit_text e reply of
                            None \<Rightarrow>
                              \<lparr>hr_world = w3, hr_fsm = fsm, hr_events = events,
                               hr_raised = None\<rparr>
                          | Some y \<Rightarrow> max_mode_except e y fsm w3 events))))"

text \<open>
  Whether an animation task is left running at the end of a sequence of events, given
  whether one runs at its start.
\<close>

fun animation_running :: "bool \<Rightarrow> event list \<Rightarrow> bool" where
  "animation_running r [] = r"
| "animation_running r (StartAnimation # es) = animation_running True es"
| "animation_running r (CancelAnimation # es) = animation_running False es"
| "animation_running r (SendMessage m # es) = animation_running r es"
| "animation_running r (EditText m # es) = animation_running r es"


section \<open>Notions used to state the properties\<close>

text \<open>
  The registry entry \<open>c\<close> records model \<open>m\<close> as failed, in an item that does not expire
  before \<open>horizon\<close>.
\<close>

definition failed_inv :: "instant \<Rightarrow> string \<Rightarrow> model_status_cache \<Rightarrow> bool" where
  "failed_inv horizon m c =
     (\<exists>s e. statuses_item c = Some (s, e) \<and> horizon \<le> e \<and> reports_failed s m)"

text \<open>The statuses item of the registry entry \<open>c\<close>, if there is one, expires by \<open>horizon\<close>.\<close>

definition expires_by :: "instant \<Rightarrow> model_status_cache \<Rightarrow> bool" where
  "expires_by horizon c =
     (case statuses_item c of None \<Rightarrow> True | Some (s, e) \<Rightarrow> e \<le> horizon)"

text \<open>The request of a liveness probe, and the calls of one full probe round.\<close>

definition probe_request :: "string \<Rightarrow> chat_request" where
  "probe_request m = \<lparr>cr_model = m, cr_messages = [(''user'', ''Test'')], cr_temperature = 7 / 10,
         cr_max_tokens = Some 10, cr_timeout = 20\<rparr>"

definition probe_round_calls :: "api_call list" where
  "probe_round_calls =
     map (\<lambda>m. ChatCompletionsCreate (probe_request m))
       (remdups (concat (map snd MODEL_CATEGORIES)))
     @ map ImagesGenerations (remdups IMAGE_MODELS)"

text \<open>
  The age of the persisted snapshot, when there is one that can be read: both rows are
  present, the status row holds JSON and its timestamp is an ISO string with an offset.
\<close>

definition snapshot_age :: "instant \<Rightarrow> database \<Rightarrow> int option" where
  "snapshot_age now db =
     (case (system_state_tbl db ''model_status'', system_state_tbl db ''last_report'') of
        (Some (StatusJson statuses, Some (IsoAware t)), Some r) \<Rightarrow> Some (now - t)
      | _ \<Rightarrow> None)"

text \<open>
  The status that the persisted snapshot records for a model, and the status that the
  registry holds for a model at an instant. The registry has adopted the snapshot when the
  two agree on every model.
\<close>

definition snapshot_status :: "database \<Rightarrow> string \<Rightarrow> string option" where
  "snapshot_status db m =
     (case system_state_tbl db ''model_status'' of
        Some (StatusJson statuses, ts) \<Rightarrow> statuses m
      | _ \<Rightarrow> None)"

definition registry_status :: "instant \<Rightarrow> cache \<Rightarrow> string \<Rightarrow> string option" where
  "registry_status now c m =
     (case model_status c of
        None \<Rightarrow> None
      | Some msc \<Rightarrow> (case ms_get_statuses now msc of None \<Rightarrow> None | Some s \<Rightarrow> s m))"


text \<open>
  The conditions under which \<open>handle_chat_message\<close> gets as far as recording usage, each
  read off the input of the handler: the cached profile is not blocked, today's count is
  under the resolved limit, the chosen model is available, and the backend call, made in
  the world that the checks leave behind, returns.
\<close>

definition chat_blocked :: "instant \<Rightarrow> int \<Rightarrow> world \<Rightarrow> bool" where
  "chat_blocked t0 uid w =
     (case fst (get_user_details_cached t0 uid (w_db w) (w_cache w)) of
        None \<Rightarrow> False | Some d \<Rightarrow> is_blocked d)"

definition under_limit :: "int list \<Rightarrow> instant \<Rightarrow> int \<Rightarrow> bool \<Rightarrow> world \<Rightarrow> bool" where
  "under_limit admins t0 uid max_mode w =
     (let (daily_limit, max_mode_limit) = fst (get_user_limits admins t0 uid (w_db w))
      in enat (get_user_requests_today t0 uid max_mode (w_db w))
           < (if max_mode then max_mode_limit else daily_limit))"

definition chat_dispatch_world :: "int list \<Rightarrow> instant \<Rightarrow> int \<Rightarrow> world \<Rightarrow> world" where
  "chat_dispatch_world admins t0 uid w =
     w\<lparr>w_cache := snd (get_user_details_cached t0 uid (w_db w) (w_cache w)),
       w_db := snd (get_user_limits admins t0 uid (w_db w))\<rparr>"

definition chat_call_completed ::
  "env \<Rightarrow> int list \<Rightarrow> instant \<Rightarrow> int \<Rightarrow> string \<Rightarrow> fsm_context \<Rightarrow> world \<Rightarrow> bool" where
  "chat_call_completed e admins t0 uid message_text fsm w =
     (\<not> isl (fst (get_simple_response e t0 (fsm_model fsm)
                    (fsm_history fsm @ [(''user'', message_text)]) uid
                    (chat_dispatch_world admins t0 uid w))))"

definition chat_recorded ::
  "env \<Rightarrow> int list \<Rightarrow> instant \<Rightarrow> int \<Rightarrow> string \<Rightarrow> fsm_context \<Rightarrow> world \<Rightarrow> bool" where
  "chat_recorded e admins t0 uid message_text fsm w =
     (\<not> chat_blocked t0 uid w \<and> under_limit admins t0 uid False w
      \<and> is_model_available t0 (fsm_model fsm) (w_cache w)
      \<and> chat_call_completed e admins t0 uid message_text fsm w)"

text \<open>The same for \<open>handle_max_mode_message\<close>.\<close>

definition max_mode_dispatch_world :: "int list \<Rightarrow> instant \<Rightarrow> int \<Rightarrow> world \<Rightarrow> world" where
  "max_mode_dispatch_world admins t0 uid w =
     w\<lparr>w_db := snd (get_user_limits admins t0 uid (w_db w))\<rparr>"

definition max_mode_run_completed ::
  "env \<Rightarrow> int list \<Rightarrow> instant \<Rightarrow> instant \<Rightarrow> int \<Rightarrow> string \<Rightarrow> world \<Rightarrow> bool" where
  "max_mode_run_completed e admins t0 t1 uid message_text w =
     (\<not> isl (fst (get_max_mode_response e t0 t1 message_text uid
                    (max_mode_dispatch_world admins t0 uid w))))"

definition max_mode_recorded ::
  "env \<Rightarrow> int list \<Rightarrow> instant \<Rightarrow> instant \<Rightarrow> int \<Rightarrow> string \<Rightarrow> world \<Rightarrow> bool" where
  "max_mode_recorded e admins t0 t1 uid message_text w =
     (are_max_mode_models_available t0 (w_cache w) \<and> under_limit admins t0 uid True w
      \<and> max_mode_run_completed e admins t0 t1 uid message_text w)"


section \<open>Concrete inputs\<close>

definition empty_db :: database where
  "empty_db = \<lparr>users_tbl = Map.empty, requests_tbl = [], system_state_tbl = Map.empty\<rparr>"

definition expired_bonus_user :: user_row where
  "expired_bonus_user =
     \<lparr>subscription_level = 2, subscription_end = Some (IsoAware (seconds 100)),
      is_blocked = False, is_verified = True, has_rewarded_bonus = True,
      user_instruction = None, user_temperature = None\<rparr>"

text \<open>A registry entry like that of \<open>GLOBAL_CACHE\<close>, with room for both items.\<close>

definition roomy_cache :: cache where
  "roomy_cache =
     \<lparr>model_status = Some \<lparr>ms_maxsize = 2, ms_ttl = seconds 600,
                             statuses_item = None, last_report_item = None\<rparr>,
      user_details = None\<rparr>"

definition no_registry_cache :: cache where
  "no_registry_cache = \<lparr>model_status = None, user_details = None\<rparr>"

text \<open>A backend on which every call succeeds.\<close>

definition healthy_env :: env where
  "healthy_env =
     \<lparr>chat_completions_create = (\<lambda>r. Response (Some ''ok'') 1),
      images_generations = (\<lambda>m. HttpStatus 200),
      edit_text = (\<lambda>m. None)\<rparr>"

text \<open>A store whose probe snapshot was written at instant 0.\<close>

definition snapshot_db :: database where
  "snapshot_db =
     empty_db\<lparr>system_state_tbl :=
       [''model_status'' \<mapsto> (StatusJson [''gpt-4.1'' \<mapsto> ''Timeout''], Some (IsoAware 0)),
        ''last_report'' \<mapsto> (OtherText, Some (IsoAware 0))]\<rparr>"

definition startup_world :: world where
  "startup_world = \<lparr>w_db = snapshot_db, w_cache = GLOBAL_CACHE, api_log = []\<rparr>"

text \<open>
  A backend on which the arbiter answers and every other model returns a response without
  content; one on which every participant raises; one on which one participant raises.
\<close>

definition silent_participants_env :: env where
  "silent_participants_env =
     \<lparr>chat_completions_create =
        (\<lambda>r. if cr_model r = MAX_MODE_ARBITER then Response (Some ''verdict'') 1
              else Response None 1),
      images_generations = (\<lambda>m. HttpStatus 200),
      edit_text = (\<lambda>m. None)\<rparr>"

definition one_silent_participant_env :: env where
  "one_silent_participant_env =
     \<lparr>chat_completions_create =
        (\<lambda>r. if cr_model r = MAX_MODE_ARBITER then Response (Some ''verdict'') 1
              else if cr_model r = ''grok-3'' then Response None 1
              else Response (Some ''four'') 1),
      images_generations = (\<lambda>m. HttpStatus 200),
      edit_text = (\<lambda>m. None)\<rparr>"

definition fresh_world :: world where
  "fresh_world = \<lparr>w_db = empty_db, w_cache = GLOBAL_CACHE, api_log = []\<rparr>"

text \<open>A backend that is down, and one whose client raises something unforeseen.\<close>

definition api_down_env :: env where
  "api_down_env =
     \<lparr>chat_completions_create =
        (\<lambda>r. Raises (Exn (APIError 500) ''InternalServerError'' ''server error'')),
      images_generations = (\<lambda>m. HttpStatus 500),
      edit_text = (\<lambda>m. None)\<rparr>"

definition crashing_env :: env where
  "crashing_env =
     \<lparr>chat_completions_create = (\<lambda>r. Raises (Exn OtherException ''ValueError'' ''bad value'')),
      images_generations = (\<lambda>m. HttpStatus 500),
      edit_text = (\<lambda>m. None)\<rparr>"

text \<open>
  A free user without bonus (user 7, daily limit 3) who has made \<open>n\<close> requests today, and
  a subscriber of the highest tier (user 8).
\<close>

definition free_user :: user_row where
  "free_user =
     \<lparr>subscription_level = 0, subscription_end = None, is_blocked = False,
      is_verified = True, has_rewarded_bonus = False, user_instruction = None,
      user_temperature = None\<rparr>"

definition max_user :: user_row where
  "max_user = free_user\<lparr>subscription_level := 3\<rparr>"

definition quota_world :: "nat \<Rightarrow> world" where
  "quota_world n =
     \<lparr>w_db = \<lparr>users_tbl = [7 \<mapsto> free_user, 8 \<mapsto> max_user],
               requests_tbl = replicate n \<lparr>req_user_id = 7, req_model = ''gpt-4.1'',
                                            request_date = 0, req_is_max_mode = False\<rparr>,
               system_state_tbl = Map.empty\<rparr>,
      w_cache = GLOBAL_CACHE, api_log = []\<rparr>"

definition chat_fsm :: fsm_context where
  "chat_fsm = \<lparr>fsm_state = Some ''Chat:in_progress'', fsm_model = ''gpt-4.1'', fsm_history = []\<rparr>"

definition max_mode_fsm :: fsm_context where
  "max_mode_fsm =
     \<lparr>fsm_state = Some ''MaxMode:in_progress'', fsm_model = [], fsm_history = []\<rparr>"


section \<open>Quota ledger: the daily count\<close>

lemma msk_date_next_day: "msk_date (t + microseconds_per_day) = msk_date t + 1"
  by (simp add: msk_date_def microseconds_per_day_def MSK_TZ_def)

lemma msk_date_mono: "s \<le> t \<Longrightarrow> msk_date s \<le> msk_date t"
  by (simp add: msk_date_def microseconds_per_day_def zdiv_mono1)

lemma msk_date_later: "t + microseconds_per_day \<le> now \<Longrightarrow> msk_date t \<noteq> msk_date now"
  using msk_date_mono [of "t + microseconds_per_day" now] msk_date_next_day [of t] by simp

lemma get_user_requests_today_add_request:
  "get_user_requests_today now uid mm (add_request t uid' m mm' db) =
     get_user_requests_today now uid mm db +
       (if uid' = uid \<and> mm' = mm \<and> msk_date t = msk_date now then 1 else 0)"
  by (simp add: get_user_requests_today_def add_request_def)

text \<open>
  C8. The count of today's requests is keyed by the calendar day in the fixed zone (MSK):
  a request recorded at instant \<open>t\<close> adds one to the count read at \<open>now\<close> exactly when it is
  of the same user and mode and \<open>t\<close> and \<open>now\<close> fall on the same MSK day; a request recorded
  a day or more before \<open>now\<close> adds nothing, and a ledger that holds rows of other days only
  counts zero. No reset is involved.
\<close>

theorem count_today_is_day_keyed:
  "get_user_requests_today now uid mm (add_request t uid' m mm' db) =
     get_user_requests_today now uid mm db +
       (if uid' = uid \<and> mm' = mm \<and> msk_date t = msk_date now then 1 else 0)
   \<and> (t + microseconds_per_day \<le> now \<longrightarrow>
        get_user_requests_today now uid mm (add_request t uid' m mm' db) =
        get_user_requests_today now uid mm db)
   \<and> ((\<forall>r \<in> set (requests_tbl db). request_date r \<noteq> msk_date now) \<longrightarrow>
        get_user_requests_today now uid mm db = 0)"
proof (intro conjI impI)
  show "get_user_requests_today now uid mm (add_request t uid' m mm' db) =
     get_user_requests_today now uid mm db +
       (if uid' = uid \<and> mm' = mm \<and> msk_date t = msk_date now then 1 else 0)"
    by (rule get_user_requests_today_add_request)
next
  assume "t + microseconds_per_day \<le> now"
  then have "msk_date t \<noteq> msk_date now" by (rule msk_date_later)
  then show "get_user_requests_today now uid mm (add_request t uid' m mm' db) =
        get_user_requests_today now uid mm db"
    by (simp add: get_user_requests_today_add_request)
next
  assume "\<forall>r \<in> set (requests_tbl db). request_date r \<noteq> msk_date now"
  then show "get_user_requests_today now uid mm db = 0"
    by (simp add: get_user_requests_today_def)
qed

theorem count_today_is_day_keyed_witness:
  "get_user_requests_today (seconds 75599) 7 False
      (add_request 0 7 ''gpt-4.1'' False empty_db) = 1
   \<and> get_user_requests_today (seconds 75600) 7 False
      (add_request 0 7 ''gpt-4.1'' False empty_db) = 0
   \<and> get_user_requests_today (seconds 86400) 7 False
      (add_request 0 7 ''gpt-4.1'' False empty_db) = 0"
proof -
  have z: "get_user_requests_today t 7 False empty_db = 0" for t
    by (simp add: get_user_requests_today_def empty_db_def)
  have d: "msk_date 0 = msk_date (seconds 75599)" "msk_date 0 \<noteq> msk_date (seconds 75600)"
    "0 + microseconds_per_day \<le> seconds 86400"
    by (simp_all add: msk_date_def seconds_def MSK_TZ_def microseconds_per_day_def)
  show ?thesis
    using count_today_is_day_keyed [of "seconds 75599" 7 False 0 7 "''gpt-4.1''" False empty_db]
      count_today_is_day_keyed [of "seconds 75600" 7 False 0 7 "''gpt-4.1''" False empty_db]
      count_today_is_day_keyed [of "seconds 86400" 7 False 0 7 "''gpt-4.1''" False empty_db]
      z d
    by simp
qed


section \<open>Quota ledger: the limits of a user\<close>

text \<open>
  C6. \<open>get_user_limits\<close> resolves the limits in the order of the specification: an
  administrative identity is unlimited; otherwise a paid tier whose stored expiry lies in
  the past counts as tier 0 and the downgrade is written to the store; a tier-0 user with
  the bonus flag gets \<open>(REWARD_LIMIT, 0)\<close>; otherwise the tier table applies. Once the
  downgrade is written, a later call writes nothing more.
\<close>

theorem get_user_limits_resolution_order:
  "get_user_limits admins now uid db =
     (limitsFor_spec admins now uid db, downgrade_spec admins now uid db)
   \<and> (\<forall>u. users_tbl db uid = Some u \<and> subscription_expired now u \<longrightarrow>
        snd (get_user_limits admins later uid (downgrade_spec admins now uid db)) =
        downgrade_spec admins now uid db)"
proof
  show eq: "get_user_limits admins now uid db =
     (limitsFor_spec admins now uid db, downgrade_spec admins now uid db)" for now db
    by (auto simp: get_user_limits_def get_user_level_def limitsFor_spec_def downgrade_spec_def
        get_user_def get_user_details_def update_subscription_def subscription_expired_def
        tier_table_def Let_def
        split: option.splits sum.splits iso_text.splits py_datetime.splits if_splits)
  show "\<forall>u. users_tbl db uid = Some u \<and> subscription_expired now u \<longrightarrow>
        snd (get_user_limits admins later uid (downgrade_spec admins now uid db)) =
        downgrade_spec admins now uid db"
    unfolding eq by (auto simp: downgrade_spec_def subscription_expired_def)
qed

theorem get_user_limits_resolution_order_witness:
  "fst (get_user_limits [1] (seconds 200) 1 (empty_db\<lparr>users_tbl := [2 \<mapsto> expired_bonus_user]\<rparr>))
     = (\<infinity>, \<infinity>)
   \<and> fst (get_user_limits [1] (seconds 200) 2 (empty_db\<lparr>users_tbl := [2 \<mapsto> expired_bonus_user]\<rparr>))
     = (7, 0)
   \<and> fst (get_user_limits [1] (seconds 50) 2 (empty_db\<lparr>users_tbl := [2 \<mapsto> expired_bonus_user]\<rparr>))
     = (100, 0)
   \<and> users_tbl (snd (get_user_limits [1] (seconds 200) 2
        (empty_db\<lparr>users_tbl := [2 \<mapsto> expired_bonus_user]\<rparr>))) 2
     = Some (expired_bonus_user\<lparr>subscription_level := 0,
                                 subscription_end := Some (IsoAware (seconds 200))\<rparr>)"
  using get_user_limits_resolution_order
          [of "[1]" "seconds 200" 1 "empty_db\<lparr>users_tbl := [2 \<mapsto> expired_bonus_user]\<rparr>"]
        get_user_limits_resolution_order
          [of "[1]" "seconds 200" 2 "empty_db\<lparr>users_tbl := [2 \<mapsto> expired_bonus_user]\<rparr>"]
        get_user_limits_resolution_order
          [of "[1]" "seconds 50" 2 "empty_db\<lparr>users_tbl := [2 \<mapsto> expired_bonus_user]\<rparr>"]
  by (simp add: limitsFor_spec_def downgrade_spec_def subscription_expired_def tier_table_def
      LIMITS_def REWARD_LIMIT_def expired_bonus_user_def empty_db_def seconds_def)



section \<open>Health registry\<close>

lemma failed_inv_unavailable:
  "model_status c = Some msc \<Longrightarrow> failed_inv horizon m msc \<Longrightarrow> t < horizon
     \<Longrightarrow> \<not> is_model_available t m c"
  by (auto simp: failed_inv_def is_model_available_def ms_get_statuses_def reports_failed_def
      split: option.splits)

lemma set_statuses_inv:
  "reports_failed s m \<Longrightarrow> horizon \<le> t + ms_ttl c \<Longrightarrow> failed_inv horizon m (ms_set_statuses t s c)"
  by (simp add: failed_inv_def ms_set_statuses_def ms_expire_def Let_def)

lemma set_statuses_params:
  "ms_ttl (ms_set_statuses t s c) = ms_ttl c" "ms_maxsize (ms_set_statuses t s c) = ms_maxsize c"
  by (simp_all add: ms_set_statuses_def ms_expire_def Let_def)

lemma set_last_report_params:
  "ms_ttl (ms_set_last_report t s c) = ms_ttl c"
  "ms_maxsize (ms_set_last_report t s c) = ms_maxsize c"
  by (simp_all add: ms_set_last_report_def ms_expire_def Let_def)

lemma set_last_report_inv:
  "failed_inv horizon m c \<Longrightarrow> t < horizon \<Longrightarrow> 2 \<le> ms_maxsize c
     \<Longrightarrow> failed_inv horizon m (ms_set_last_report t r c)"
  by (auto simp: failed_inv_def ms_set_last_report_def ms_expire_def Let_def)

lemma mark_establishes:
  assumes "model_status c = Some msc" "0 < ms_ttl msc" "is_model_available t0 m c"
  shows "\<exists>msc'. model_status (set_model_failed_in_cache t0 m c) = Some msc'
           \<and> failed_inv (t0 + ms_ttl msc) m msc' \<and> ms_ttl msc' = ms_ttl msc
           \<and> ms_maxsize msc' = ms_maxsize msc"
  using assms
  by (auto simp: set_model_failed_in_cache_def is_model_available_def set_statuses_params
      reports_failed_def intro!: set_statuses_inv split: option.splits)

lemma mark_immediate:
  assumes "model_status c = Some msc" "0 < ms_ttl msc"
  shows "\<not> is_model_available t0 m (set_model_failed_in_cache t0 m c)"
  using assms
  by (auto simp: set_model_failed_in_cache_def is_model_available_def ms_get_statuses_def
      ms_set_statuses_def ms_expire_def Let_def split: option.splits if_splits)

lemma step_preserves:
  assumes "model_status c = Some msc" "failed_inv horizon m msc" "t < horizon"
    "horizon \<le> t + ms_ttl msc" "keeps_failed (ms_maxsize msc) m op"
  shows "\<exists>msc'. model_status (registry_step (t, op) c) = Some msc'
           \<and> failed_inv horizon m msc' \<and> ms_ttl msc' = ms_ttl msc
           \<and> ms_maxsize msc' = ms_maxsize msc"
proof (cases op)
  case (MarkFailed m')
  from assms(2) obtain s e where se: "statuses_item msc = Some (s, e)" "horizon \<le> e"
    "reports_failed s m" by (auto simp: failed_inv_def)
  with assms(3) have get: "ms_get_statuses t msc = Some s"
    by (simp add: ms_get_statuses_def)
  have rf: "reports_failed (s(m' \<mapsto> ''FAILED'')) m"
    using se(3) by (simp add: reports_failed_def)
  show ?thesis
    using assms MarkFailed get rf
    by (auto simp: set_model_failed_in_cache_def set_statuses_params intro!: set_statuses_inv)
next
  case (ApplyProbeResults s r)
  with assms(5) have big: "2 \<le> ms_maxsize msc" and rf: "reports_failed s m" by simp_all
  have "failed_inv horizon m (ms_set_statuses t s msc)"
    using rf assms(4) by (rule set_statuses_inv)
  then have "failed_inv horizon m (ms_set_last_report t r (ms_set_statuses t s msc))"
    using assms(3) big by (intro set_last_report_inv) (simp_all add: set_statuses_params)
  then show ?thesis
    using assms(1) ApplyProbeResults
    by (simp add: apply_probe_results_def set_statuses_params set_last_report_params)
qed

lemma run_preserves:
  assumes "model_status c = Some msc" "failed_inv horizon m msc"
    "\<forall>(t, op) \<in> set ops.
        t < horizon \<and> horizon \<le> t + ms_ttl msc \<and> keeps_failed (ms_maxsize msc) m op"
  shows "\<exists>msc'. model_status (registry_run ops c) = Some msc' \<and> failed_inv horizon m msc'"
  using assms
proof (induction ops arbitrary: c msc)
  case Nil
  then show ?case by simp
next
  case (Cons x ops)
  obtain t op where x: "x = (t, op)" by (cases x)
  from Cons.prems x have "t < horizon" "horizon \<le> t + ms_ttl msc"
    "keeps_failed (ms_maxsize msc) m op"
    by auto
  from step_preserves [OF Cons.prems(1,2) this]
  obtain msc' where m': "model_status (registry_step (t, op) c) = Some msc'"
    "failed_inv horizon m msc'" "ms_ttl msc' = ms_ttl msc" "ms_maxsize msc' = ms_maxsize msc"
    by blast
  have "\<exists>msc''. model_status (registry_run ops (registry_step (t, op) c)) = Some msc''
          \<and> failed_inv horizon m msc''"
    using Cons.prems(3) m' by (intro Cons.IH [OF m'(1,2)]) auto
  then show ?case using x by simp
qed

lemma marked_stays_failed:
  assumes "model_status c = Some msc" "0 < ms_ttl msc" "is_model_available t0 m c"
    "\<forall>(t, op) \<in> set ops. t0 \<le> t \<and> t < t0 + ms_ttl msc \<and> keeps_failed (ms_maxsize msc) m op"
    "t' < t0 + ms_ttl msc"
  shows "\<not> is_model_available t' m (registry_run ops (set_model_failed_in_cache t0 m c))"
proof -
  from mark_establishes [OF assms(1-3)] obtain msc' where
    m': "model_status (set_model_failed_in_cache t0 m c) = Some msc'"
    "failed_inv (t0 + ms_ttl msc) m msc'" "ms_ttl msc' = ms_ttl msc"
    "ms_maxsize msc' = ms_maxsize msc" by blast
  have "\<exists>msc''. model_status (registry_run ops (set_model_failed_in_cache t0 m c)) = Some msc''
          \<and> failed_inv (t0 + ms_ttl msc) m msc''"
    using assms(4) m' by (intro run_preserves [OF m'(1,2)]) auto
  then show ?thesis using assms(5) by (auto dest: failed_inv_unavailable)
qed

lemma probe_ok_restores:
  "statuses m = Some ''OK'' \<Longrightarrow> is_model_available t' m (apply_probe_results t statuses r c)"
  by (auto simp: is_model_available_def apply_probe_results_def ms_get_statuses_def
      ms_set_last_report_def ms_set_statuses_def ms_expire_def Let_def
      split: option.splits if_splits)

text \<open>
  C7. A model that was never probed and never marked is available: there is no registry
  entry, or the entry holds no statuses (none ever written, or expired), or the statuses do
  not mention the model. In particular every model is available in the cache as the
  program starts with it.
\<close>

theorem unknown_model_is_available:
  "(model_status c = None
     \<or> (\<exists>msc. model_status c = Some msc \<and> ms_get_statuses now msc = None)
     \<or> (\<exists>msc s. model_status c = Some msc \<and> ms_get_statuses now msc = Some s \<and> m \<notin> dom s)
    \<longrightarrow> is_model_available now m c)
   \<and> is_model_available now m GLOBAL_CACHE"
  by (auto simp: is_model_available_def GLOBAL_CACHE_def ms_get_statuses_def
      split: option.splits)

theorem unknown_model_is_available_witness:
  "is_model_available 0 ''gpt-4.1'' no_registry_cache
   \<and> is_model_available 0 ''gpt-4.1'' roomy_cache
   \<and> is_model_available (seconds 5) ''gpt-4.1''
       (set_model_failed_in_cache 0 ''grok-3'' roomy_cache)"
proof -
  have a: "model_status no_registry_cache = None"
    by (simp add: no_registry_cache_def)
  have b: "\<exists>msc. model_status roomy_cache = Some msc \<and> ms_get_statuses 0 msc = None"
    by (simp add: roomy_cache_def ms_get_statuses_def)
  have c: "\<exists>msc s. model_status (set_model_failed_in_cache 0 ''grok-3'' roomy_cache) = Some msc
      \<and> ms_get_statuses (seconds 5) msc = Some s \<and> ''gpt-4.1'' \<notin> dom s"
    by (simp add: roomy_cache_def set_model_failed_in_cache_def ms_get_statuses_def
        ms_set_statuses_def ms_expire_def seconds_def Let_def)
  show ?thesis
    using unknown_model_is_available [of no_registry_cache 0 "''gpt-4.1''"]
      unknown_model_is_available [of roomy_cache 0 "''gpt-4.1''"]
      unknown_model_is_available [of "set_model_failed_in_cache 0 ''grok-3'' roomy_cache"
        "seconds 5" "''gpt-4.1''"]
      a b c
    by blast
qed

lemma is_mark_keeps_failed: "is_mark op \<Longrightarrow> keeps_failed room m op"
  by (cases op) simp_all

lemma expired_is_available:
  "model_status c = Some msc \<Longrightarrow> expires_by horizon msc \<Longrightarrow> horizon \<le> t
     \<Longrightarrow> is_model_available t m c"
  by (auto simp: expires_by_def is_model_available_def ms_get_statuses_def
      split: option.splits)

lemma mark_expires_by:
  assumes "model_status c = Some msc" "is_model_available t0 m c" "t0 + ms_ttl msc \<le> horizon"
  shows "\<exists>msc'. model_status (set_model_failed_in_cache t0 m c) = Some msc'
           \<and> expires_by horizon msc' \<and> ms_ttl msc' = ms_ttl msc"
  using assms
  by (auto simp: set_model_failed_in_cache_def is_model_available_def expires_by_def
      ms_set_statuses_def ms_expire_def Let_def split: option.splits)

lemma mark_keeps_expires_by:
  assumes "model_status c = Some msc" "expires_by horizon msc" "t + ms_ttl msc \<le> horizon"
  shows "\<exists>msc'. model_status (set_model_failed_in_cache t m' c) = Some msc'
           \<and> expires_by horizon msc' \<and> ms_ttl msc' = ms_ttl msc"
  using assms
  by (auto simp: set_model_failed_in_cache_def expires_by_def
      ms_set_statuses_def ms_expire_def Let_def split: option.splits)

lemma marks_keep_expires_by:
  assumes "model_status c = Some msc" "expires_by horizon msc"
    "\<forall>(t, op) \<in> set ops. is_mark op \<and> t + ms_ttl msc \<le> horizon"
  shows "\<exists>msc'. model_status (registry_run ops c) = Some msc' \<and> expires_by horizon msc'"
  using assms
proof (induction ops arbitrary: c msc)
  case Nil
  then show ?case by simp
next
  case (Cons x ops)
  obtain t op where x: "x = (t, op)" by (cases x)
  from Cons.prems x have "is_mark op" and le: "t + ms_ttl msc \<le> horizon" by auto
  then obtain m' where op: "op = MarkFailed m'" by (cases op) simp_all
  from mark_keeps_expires_by [OF Cons.prems(1,2) le, of m']
  obtain msc' where m': "model_status (set_model_failed_in_cache t m' c) = Some msc'"
    "expires_by horizon msc'" "ms_ttl msc' = ms_ttl msc"
    by blast
  have "\<exists>msc''. model_status (registry_run ops (set_model_failed_in_cache t m' c)) = Some msc''
          \<and> expires_by horizon msc''"
    using Cons.prems(3) m' by (intro Cons.IH [OF m'(1,2)]) auto
  then show ?case using x op by simp
qed

lemma marked_lapses:
  assumes "model_status c = Some msc" "is_model_available t0 m c"
    "\<forall>(t, op) \<in> set ops. is_mark op \<and> t + ms_ttl msc \<le> t'"
    "t0 + ms_ttl msc \<le> t'"
  shows "is_model_available t' m' (registry_run ops (set_model_failed_in_cache t0 m c))"
proof -
  from mark_expires_by [OF assms(1,2,4)] obtain msc' where
    m': "model_status (set_model_failed_in_cache t0 m c) = Some msc'"
    "expires_by t' msc'" "ms_ttl msc' = ms_ttl msc" by blast
  have "\<exists>msc''. model_status (registry_run ops (set_model_failed_in_cache t0 m c)) = Some msc''
          \<and> expires_by t' msc''"
    using assms(3) m' by (intro marks_keep_expires_by [OF m'(1,2)]) auto
  then show ?thesis by (auto intro: expired_is_available)
qed

lemma marked_stays_failed_through_marks:
  assumes "model_status c = Some msc" "0 < ms_ttl msc" "is_model_available t0 m c"
    "\<forall>(t, op) \<in> set ops. t0 \<le> t \<and> t < t0 + ms_ttl msc \<and> is_mark op"
    "t' < t0 + ms_ttl msc"
  shows "\<not> is_model_available t' m (registry_run ops (set_model_failed_in_cache t0 m c))"
  using assms(4) by (intro marked_stays_failed [OF assms(1-3) _ assms(5)])
    (auto intro: is_mark_keeps_failed)

text \<open>
  C2, as stated, fails on the cache that the program uses: the registry entry has a
  time-to-live of 600 seconds, so a marked model is available again ten minutes after the
  mark, with no probe round in between.
\<close>

theorem marked_model_recovers_by_expiry:
  "is_model_available (seconds 600) ''gpt-4.1''
     (set_model_failed_in_cache 0 ''gpt-4.1'' GLOBAL_CACHE)"
  by (simp add: is_model_available_def set_model_failed_in_cache_def GLOBAL_CACHE_def
      ms_get_statuses_def ms_set_statuses_def ms_expire_def seconds_def Let_def)

text \<open>
  C2, amended. Let the cache hold a registry entry with a positive time-to-live \<open>ttl\<close>
  (600 seconds in the program) and room for at least one item. Right after \<open>set_model_failed_in_cache\<close> marks \<open>m\<close> at
  \<open>t0\<close>, \<open>m\<close> is unavailable. If \<open>m\<close> was available when it was marked and the
  operations that follow are marks (of any models), then \<open>m\<close> stays unavailable at every
  instant before \<open>t0 + ttl\<close> as long as those marks fall between \<open>t0\<close> and \<open>t0 + ttl\<close>,
  and every model is available again at every instant that lies \<open>ttl\<close> or more after \<open>t0\<close>
  and after each of those marks: a mark lapses with the time-to-live of the entry, which
  each write renews. A probe round that reports \<open>m\<close> as OK makes \<open>m\<close> available. What a
  probe round that reports \<open>m\<close> with another status does to the mark is not part of this
  statement.
\<close>

theorem marked_model_unavailable_until_probe_or_expiry:
  assumes "model_status c = Some msc" "0 < ms_ttl msc" "1 \<le> ms_maxsize msc"
  shows "\<not> is_model_available t0 m (set_model_failed_in_cache t0 m c)
    \<and> (is_model_available t0 m c
        \<and> (\<forall>(t, op) \<in> set ops. t0 \<le> t \<and> t < t0 + ms_ttl msc \<and> is_mark op)
        \<and> t' < t0 + ms_ttl msc
       \<longrightarrow> \<not> is_model_available t' m (registry_run ops (set_model_failed_in_cache t0 m c)))
    \<and> (is_model_available t0 m c
        \<and> (\<forall>(t, op) \<in> set ops. is_mark op \<and> t + ms_ttl msc \<le> t')
        \<and> t0 + ms_ttl msc \<le> t'
       \<longrightarrow> is_model_available t' m' (registry_run ops (set_model_failed_in_cache t0 m c)))
    \<and> (statuses m = Some ''OK''
       \<longrightarrow> is_model_available t'' m (apply_probe_results t1 statuses r c'))"
  using mark_immediate [OF assms(1,2)] marked_stays_failed_through_marks [OF assms(1,2)]
    marked_lapses [OF assms(1)] probe_ok_restores
  by blast

theorem marked_model_unavailable_until_probe_or_expiry_witness:
  "\<not> is_model_available 0 ''gpt-4.1'' (set_model_failed_in_cache 0 ''gpt-4.1'' GLOBAL_CACHE)
   \<and> \<not> is_model_available (seconds 599) ''gpt-4.1''
        (registry_run [(seconds 10, MarkFailed ''grok-3'')]
           (set_model_failed_in_cache 0 ''gpt-4.1'' GLOBAL_CACHE))
   \<and> is_model_available (seconds 610) ''gpt-4.1''
        (registry_run [(seconds 10, MarkFailed ''grok-3'')]
           (set_model_failed_in_cache 0 ''gpt-4.1'' GLOBAL_CACHE))
   \<and> is_model_available (seconds 30) ''gpt-4.1''
        (apply_probe_results (seconds 30) [''gpt-4.1'' \<mapsto> ''OK''] OtherText
           (set_model_failed_in_cache 0 ''gpt-4.1'' GLOBAL_CACHE))"
proof -
  define g where "g = \<lparr>ms_maxsize = 1, ms_ttl = seconds 600,
      statuses_item = None, last_report_item = None\<rparr>"
  have g: "model_status GLOBAL_CACHE = Some g" "0 < ms_ttl g" "1 \<le> ms_maxsize g"
    by (simp_all add: g_def GLOBAL_CACHE_def seconds_def)
  have t: "ms_ttl g = 600000000"
    by (simp add: g_def seconds_def)
  have av: "is_model_available 0 ''gpt-4.1'' GLOBAL_CACHE"
    by (simp add: is_model_available_def GLOBAL_CACHE_def ms_get_statuses_def)
  have ok: "[''gpt-4.1'' \<mapsto> ''OK''] ''gpt-4.1'' = Some ''OK''"
    by simp
  have "\<not> is_model_available 0 ''gpt-4.1''
          (set_model_failed_in_cache 0 ''gpt-4.1'' GLOBAL_CACHE)"
    using marked_model_unavailable_until_probe_or_expiry [OF g, of 0 "''gpt-4.1''"]
    by blast
  moreover have "\<not> is_model_available (seconds 599) ''gpt-4.1''
        (registry_run [(seconds 10, MarkFailed ''grok-3'')]
           (set_model_failed_in_cache 0 ''gpt-4.1'' GLOBAL_CACHE))"
    using marked_model_unavailable_until_probe_or_expiry [OF g, of 0 "''gpt-4.1''"
        "[(seconds 10, MarkFailed ''grok-3'')]" "seconds 599"] av t
    by (simp add: seconds_def)
  moreover have "is_model_available (seconds 610) ''gpt-4.1''
        (registry_run [(seconds 10, MarkFailed ''grok-3'')]
           (set_model_failed_in_cache 0 ''gpt-4.1'' GLOBAL_CACHE))"
    using marked_model_unavailable_until_probe_or_expiry [OF g, of 0 "''gpt-4.1''"
        "[(seconds 10, MarkFailed ''grok-3'')]" "seconds 610" "''gpt-4.1''"] av t
    by (simp add: seconds_def)
  moreover have "is_model_available (seconds 30) ''gpt-4.1''
        (apply_probe_results (seconds 30) [''gpt-4.1'' \<mapsto> ''OK''] OtherText
           (set_model_failed_in_cache 0 ''gpt-4.1'' GLOBAL_CACHE))"
    using marked_model_unavailable_until_probe_or_expiry [OF g, of _ "''gpt-4.1''" _ _ _
        "[''gpt-4.1'' \<mapsto> ''OK'']" "seconds 30" "seconds 30" OtherText
        "set_model_failed_in_cache 0 ''gpt-4.1'' GLOBAL_CACHE"] ok
    by blast
  ultimately show ?thesis by blast
qed

text \<open>
  The time-to-live belongs to the entry, not to a model: a later mark of another model
  rewrites the statuses and renews it, so the earlier mark lapses that much later.
\<close>

lemma later_mark_renews_entry:
  "\<not> is_model_available (seconds 600) ''gpt-4.1''
       (registry_run [(seconds 10, MarkFailed ''grok-3'')]
          (set_model_failed_in_cache 0 ''gpt-4.1'' GLOBAL_CACHE))"
  by (simp add: is_model_available_def set_model_failed_in_cache_def GLOBAL_CACHE_def
      ms_get_statuses_def ms_set_statuses_def ms_expire_def seconds_def Let_def)

text \<open>
  The registry entry of the program is built with room for one item, while the program
  keeps two items in it. On an entry that holds at most one item, writing the statuses and
  then the report, as a probe round and the reconciliation at startup both do, leaves no
  statuses behind: the report displaces them. With room for both items the statuses stay.
\<close>

lemma unexpired_idem: "unexpired t (unexpired t x) = unexpired t x"
  by (cases x) auto

lemma one_slot_entry_drops_statuses:
  assumes "ms_maxsize c < 2" "0 < ms_ttl c"
    "unexpired t (statuses_item c) = None \<or> unexpired t (last_report_item c) = None"
  shows "ms_get_statuses t' (ms_set_last_report t r (ms_set_statuses t s c)) = None"
  using assms
  by (auto simp: ms_get_statuses_def ms_set_last_report_def ms_set_statuses_def ms_expire_def
      unexpired_idem Let_def)

lemma roomy_entry_keeps_statuses:
  assumes "2 \<le> ms_maxsize c" "0 < ms_ttl c" "t \<le> t'" "t' < t + ms_ttl c"
  shows "ms_get_statuses t' (ms_set_last_report t r (ms_set_statuses t s c)) = Some s"
  using assms
  by (auto simp: ms_get_statuses_def ms_set_last_report_def ms_set_statuses_def ms_expire_def
      unexpired_idem Let_def)

lemma failed_probe_round_forgets_statuses:
  "is_model_available (seconds 1) ''gpt-4.1''
     (apply_probe_results (seconds 1) [''gpt-4.1'' \<mapsto> ''Timeout''] OtherText
        (set_model_failed_in_cache 0 ''gpt-4.1'' GLOBAL_CACHE))"
  by (simp add: is_model_available_def set_model_failed_in_cache_def GLOBAL_CACHE_def
      apply_probe_results_def ms_set_last_report_def
      ms_get_statuses_def ms_set_statuses_def ms_expire_def seconds_def Let_def)

text \<open>
  C10, as stated, takes the state before the first probe round for a cache without a
  \<^verbatim>\<open>model_status\<close> entry. In the program's cache the entry is always there, and empty
  before the first probe round: there a mark is recorded, and the marked model is
  unavailable.
\<close>

theorem mark_before_first_probe_is_recorded:
  "is_model_available 0 ''gpt-4.1'' GLOBAL_CACHE
   \<and> \<not> is_model_available 0 ''gpt-4.1'' (set_model_failed_in_cache 0 ''gpt-4.1'' GLOBAL_CACHE)"
  by (simp add: is_model_available_def set_model_failed_in_cache_def GLOBAL_CACHE_def
      ms_get_statuses_def ms_set_statuses_def ms_expire_def seconds_def Let_def)

text \<open>
  C10, amended. If the cache dictionary has no \<^verbatim>\<open>model_status\<close> key, marking a model
  changes nothing and every model is available. If the key is there and the entry holds no
  unexpired statuses (the state before the first probe round and after the time-to-live
  has run out), marking a model is recorded: the model was available and is unavailable
  after the mark.
\<close>

theorem mark_without_registry_entry_is_noop:
  "(model_status c = None \<longrightarrow>
      set_model_failed_in_cache now m c = c \<and> is_model_available now' m c) \<and>
   (\<forall>msc. model_status c = Some msc \<and> 0 < ms_ttl msc \<and> ms_get_statuses now msc = None \<longrightarrow>
      is_model_available now m c \<and>
      \<not> is_model_available now m (set_model_failed_in_cache now m c))"
  by (auto simp: set_model_failed_in_cache_def is_model_available_def ms_get_statuses_def
        ms_set_statuses_def ms_expire_def Let_def
      split: option.splits if_splits)

theorem mark_without_registry_entry_is_noop_witness:
  "set_model_failed_in_cache 0 ''gpt-4.1'' no_registry_cache = no_registry_cache
   \<and> is_model_available 5 ''gpt-4.1'' no_registry_cache
   \<and> is_model_available 0 ''gpt-4.1'' roomy_cache
   \<and> \<not> is_model_available 0 ''gpt-4.1'' (set_model_failed_in_cache 0 ''gpt-4.1'' roomy_cache)"
proof -
  have a: "model_status no_registry_cache = None"
    by (simp add: no_registry_cache_def)
  have b: "\<exists>msc. model_status roomy_cache = Some msc \<and> 0 < ms_ttl msc
      \<and> ms_get_statuses 0 msc = None"
    by (simp add: roomy_cache_def ms_get_statuses_def seconds_def)
  show ?thesis
    using mark_without_registry_entry_is_noop [of no_registry_cache 0 "''gpt-4.1''" 5]
      mark_without_registry_entry_is_noop [of roomy_cache 0 "''gpt-4.1''"]
      a b
    by blast
qed


section \<open>Health prober: reconciling at startup\<close>

lemma test_chat_model_log:
  "api_log (snd (test_chat_model e m w)) = api_log w @ [ChatCompletionsCreate (probe_request m)]"
  by (simp add: test_chat_model_def probe_request_def Let_def
      split: chat_outcome.splits exn_class.splits)

lemma test_image_model_log:
  "api_log (snd (test_image_model e m w)) = api_log w @ [ImagesGenerations m]"
  by (simp add: test_image_model_def Let_def split: image_outcome.splits exn_class.splits)

lemma run_probes_log:
  assumes "\<And>m w. api_log (snd (probe m w)) = api_log w @ [f m]"
  shows "api_log (snd (run_probes probe ms w)) = api_log w @ map f ms"
proof (induction ms arbitrary: w)
  case Nil
  show ?case by simp
next
  case (Cons m ms)
  obtain r w1 where p: "probe m w = (r, w1)" by (cases "probe m w")
  obtain rs w2 where q: "run_probes probe ms w1 = (rs, w2)" by (cases "run_probes probe ms w1")
  from assms [of m w] p have "api_log w1 = api_log w @ [f m]" by simp
  moreover from Cons.IH [of w1] q have "api_log w2 = api_log w1 @ map f ms" by simp
  ultimately show ?case using p q by simp
qed

lemma scheduled_model_test_log:
  "api_log (scheduled_model_test e now w) = api_log w @ probe_round_calls"
  using run_probes_log [of "test_chat_model e" "\<lambda>m. ChatCompletionsCreate (probe_request m)"
      "remdups (concat (map snd MODEL_CATEGORIES))" w, OF test_chat_model_log]
    run_probes_log [of "test_image_model e" ImagesGenerations "remdups IMAGE_MODELS"
      "snd (run_probes (test_chat_model e) (remdups (concat (map snd MODEL_CATEGORIES))) w)",
      OF test_image_model_log]
  by (auto simp: scheduled_model_test_def probe_round_calls_def Let_def split: prod.splits)

lemma probe_round_calls_nonempty: "probe_round_calls \<noteq> []"
  by (simp add: probe_round_calls_def IMAGE_MODELS_def)

lemma startup_model_check_fresh:
  assumes "model_status (w_cache w) = Some msc"
    "system_state_tbl (w_db w) ''model_status'' = Some (StatusJson s, Some (IsoAware t))"
    "system_state_tbl (w_db w) ''last_report'' = Some (rv, rts)"
    "now - t < ten_minutes"
  shows "startup_model_check e now w =
           w\<lparr>w_cache := (w_cache w)\<lparr>model_status :=
               Some (ms_set_last_report now rv (ms_set_statuses now s msc))\<rparr>\<rparr>"
  using assms by (simp add: startup_model_check_def get_system_state_def)

lemma snapshot_age_SomeD:
  assumes "snapshot_age now db = Some age"
  shows "\<exists>s t rv rts. system_state_tbl db ''model_status'' = Some (StatusJson s, Some (IsoAware t))
           \<and> system_state_tbl db ''last_report'' = Some (rv, rts) \<and> age = now - t"
  using assms
  by (auto simp: snapshot_age_def
      split: option.splits prod.splits text_value.splits iso_text.splits)

lemma startup_model_check_stale:
  assumes "model_status (w_cache w) \<noteq> None"
    "\<not> (\<exists>age. snapshot_age now (w_db w) = Some age \<and> age < ten_minutes)"
  shows "startup_model_check e now w = scheduled_model_test e now w"
proof -
  obtain msc where msc: "model_status (w_cache w) = Some msc" using assms(1) by auto
  show ?thesis
  proof (cases "system_state_tbl (w_db w) ''model_status''")
    case None
    then show ?thesis
      by (simp add: startup_model_check_def get_system_state_def)
  next
    case (Some sr)
    obtain sj ts where sr: "sr = (sj, ts)" by (cases sr)
    show ?thesis
    proof (cases "system_state_tbl (w_db w) ''last_report''")
      case None
      then show ?thesis using Some sr
        by (simp add: startup_model_check_def get_system_state_def)
    next
      case rr: (Some rr)
      obtain rv rts where rv: "rr = (rv, rts)" by (cases rr)
      show ?thesis
      proof (cases ts)
        case None
        then show ?thesis using Some sr rr rv
          by (simp add: startup_model_check_def get_system_state_def)
      next
        case ts: (Some iso)
        show ?thesis using Some sr rr rv ts msc assms(2)
          by (cases iso; cases sj)
             (simp_all add: startup_model_check_def snapshot_age_def get_system_state_def)
      qed
    qed
  qed
qed

text \<open>
  Whether a probe round runs at startup. With a registry entry in the cache,
  \<open>startup_model_check\<close> makes no backend call and leaves the store as it is exactly when
  there is a readable snapshot whose timestamp is less than ten minutes old; in every other
  case (older, missing, unparsable) it is a full probe round, which calls the backend once
  for each model.
\<close>

lemma startup_model_check_probe_decision:
  assumes "model_status (w_cache w) \<noteq> None"
  shows "((\<exists>age. snapshot_age now (w_db w) = Some age \<and> age < ten_minutes)
          \<longrightarrow> api_log (startup_model_check e now w) = api_log w
              \<and> w_db (startup_model_check e now w) = w_db w)
       \<and> (\<not> (\<exists>age. snapshot_age now (w_db w) = Some age \<and> age < ten_minutes)
          \<longrightarrow> startup_model_check e now w = scheduled_model_test e now w
              \<and> api_log (startup_model_check e now w) = api_log w @ probe_round_calls)
       \<and> (api_log (startup_model_check e now w) = api_log w
          \<longleftrightarrow> (\<exists>age. snapshot_age now (w_db w) = Some age \<and> age < ten_minutes))"
proof (cases "\<exists>age. snapshot_age now (w_db w) = Some age \<and> age < ten_minutes")
  case True
  then obtain age where age: "snapshot_age now (w_db w) = Some age" "age < ten_minutes"
    by blast
  obtain msc where msc: "model_status (w_cache w) = Some msc" using assms by auto
  from snapshot_age_SomeD [OF age(1)] obtain s t rv rts where
    rows: "system_state_tbl (w_db w) ''model_status'' = Some (StatusJson s, Some (IsoAware t))"
      "system_state_tbl (w_db w) ''last_report'' = Some (rv, rts)" "age = now - t"
    by blast
  from startup_model_check_fresh [OF msc rows(1,2), of now e] age(2) rows(3)
  have "api_log (startup_model_check e now w) = api_log w"
    "w_db (startup_model_check e now w) = w_db w"
    by simp_all
  then show ?thesis using True by simp
next
  case False
  then have "startup_model_check e now w = scheduled_model_test e now w"
    by (rule startup_model_check_stale [OF assms])
  then show ?thesis using False
    by (simp add: scheduled_model_test_log probe_round_calls_nonempty)
qed

text \<open>
  What the registry holds after a fresh snapshot was reused. With room for both items the
  registry records for every model the status that the snapshot records. On an entry that
  holds at most one item it records no status at all.
\<close>

lemma startup_with_room_adopts:
  assumes "model_status (w_cache w) = Some msc" "2 \<le> ms_maxsize msc" "0 < ms_ttl msc"
    "snapshot_age now (w_db w) = Some age" "age < ten_minutes"
  shows "registry_status now (w_cache (startup_model_check e now w)) m
           = snapshot_status (w_db w) m"
proof -
  from snapshot_age_SomeD [OF assms(4)] obtain s t rv rts where
    rows: "system_state_tbl (w_db w) ''model_status'' = Some (StatusJson s, Some (IsoAware t))"
      "system_state_tbl (w_db w) ''last_report'' = Some (rv, rts)" "age = now - t"
    by blast
  have "ms_get_statuses now (ms_set_last_report now rv (ms_set_statuses now s msc)) = Some s"
    using assms(2,3) by (intro roomy_entry_keeps_statuses) simp_all
  then show ?thesis
    using startup_model_check_fresh [OF assms(1) rows(1,2), of now e] assms(5) rows
    by (simp add: registry_status_def snapshot_status_def)
qed

lemma startup_one_slot_forgets:
  assumes "model_status (w_cache w) = Some msc" "ms_maxsize msc < 2" "0 < ms_ttl msc"
    "unexpired now (statuses_item msc) = None \<or> unexpired now (last_report_item msc) = None"
    "snapshot_age now (w_db w) = Some age" "age < ten_minutes"
  shows "registry_status t' (w_cache (startup_model_check e now w)) m = None"
proof -
  from snapshot_age_SomeD [OF assms(5)] obtain s t rv rts where
    rows: "system_state_tbl (w_db w) ''model_status'' = Some (StatusJson s, Some (IsoAware t))"
      "system_state_tbl (w_db w) ''last_report'' = Some (rv, rts)" "age = now - t"
    by blast
  have "ms_get_statuses t' (ms_set_last_report now rv (ms_set_statuses now s msc)) = None"
    using assms(2-4) by (rule one_slot_entry_drops_statuses)
  then show ?thesis
    using startup_model_check_fresh [OF assms(1) rows(1,2), of now e] assms(6) rows
    by (simp add: registry_status_def)
qed

text \<open>
  C5 fails on the code in what it says of adoption. The program starts with its cache,
  whose registry entry has room for one item, and a store whose snapshot was written five
  minutes ago and records \<^verbatim>\<open>gpt-4.1\<close> as \<^verbatim>\<open>Timeout\<close>. As the claim says,
  \<open>startup_model_check\<close> makes no backend call. But of the two items it writes, the
  report displaces the statuses: the registry then records no status, only the report, and
  \<^verbatim>\<open>gpt-4.1\<close> is available. The snapshot has not been adopted.
\<close>

theorem fresh_snapshot_is_not_adopted:
  "snapshot_status (w_db startup_world) ''gpt-4.1'' = Some ''Timeout''
   \<and> api_log (startup_model_check healthy_env (seconds 300) startup_world) = []
   \<and> registry_status (seconds 300)
        (w_cache (startup_model_check healthy_env (seconds 300) startup_world)) ''gpt-4.1''
      = None
   \<and> map_option (ms_get_last_report (seconds 300))
        (model_status (w_cache (startup_model_check healthy_env (seconds 300) startup_world)))
      = Some (Some OtherText)
   \<and> is_model_available (seconds 300) ''gpt-4.1''
        (w_cache (startup_model_check healthy_env (seconds 300) startup_world))"
  by (simp add: startup_model_check_def get_system_state_def startup_world_def snapshot_db_def
      empty_db_def GLOBAL_CACHE_def snapshot_status_def registry_status_def
      is_model_available_def ms_get_statuses_def ms_get_last_report_def
      ms_set_last_report_def ms_set_statuses_def ms_expire_def
      seconds_def ten_minutes_def Let_def)


section \<open>Frame lemmas: what each operation leaves alone\<close>

lemma get_user_level_requests:
  "requests_tbl (snd (get_user_level admins now uid db)) = requests_tbl db"
  by (simp add: get_user_level_def update_subscription_def Let_def
      split: option.splits sum.splits)

lemma get_user_limits_snd:
  "snd (get_user_limits admins now uid db) = snd (get_user_level admins now uid db)"
  by (simp add: get_user_limits_def Let_def split: prod.splits option.splits)

lemma get_user_limits_requests:
  "requests_tbl (snd (get_user_limits admins now uid db)) = requests_tbl db"
  by (simp add: get_user_limits_snd get_user_level_requests)

lemma requests_today_cong:
  "requests_tbl db' = requests_tbl db
     \<Longrightarrow> get_user_requests_today now uid mm db' = get_user_requests_today now uid mm db"
  by (simp add: get_user_requests_today_def)

lemma requests_today_limits:
  "get_user_requests_today now uid mm (snd (get_user_limits admins t uid db))
     = get_user_requests_today now uid mm db"
  by (rule requests_today_cong) (rule get_user_limits_requests)

lemma get_user_details_cached_model_status:
  "model_status (snd (get_user_details_cached now uid db c)) = model_status c"
  by (simp add: get_user_details_cached_def split: option.splits)

lemma is_model_available_cong:
  "model_status c' = model_status c \<Longrightarrow> is_model_available t m c' = is_model_available t m c"
  by (simp add: is_model_available_def)

lemma get_simple_response_effect:
  "\<exists>req. api_log (snd (get_simple_response e now m msgs uid w))
            = api_log w @ [ChatCompletionsCreate req]
     \<and> cr_model req = m
     \<and> w_db (snd (get_simple_response e now m msgs uid w)) = w_db w
     \<and> (case fst (get_simple_response e now m msgs uid w) of
           Inl x \<Rightarrow> chat_completions_create e req = Raises x
         | Inr (t, d) \<Rightarrow> \<exists>c. chat_completions_create e req = Response c d)"
  by (auto simp: get_simple_response_def Let_def
      split: prod.splits chat_outcome.splits option.splits)

lemma get_simple_response_db:
  "w_db (snd (get_simple_response e now m msgs uid w)) = w_db w"
  using get_simple_response_effect [of e now m msgs uid w] by blast

lemma get_simple_response_log:
  "map call_model (api_log (snd (get_simple_response e now m msgs uid w)))
     = map call_model (api_log w) @ [m]"
  using get_simple_response_effect [of e now m msgs uid w] by auto

lemma get_participant_response_db:
  "w_db (snd (get_participant_response e now m prompt uid w)) = w_db w"
  using get_simple_response_db [of e now m "[(''user'', prompt)]" uid w]
  by (auto simp: get_participant_response_def split: prod.splits sum.splits)

lemma get_participant_response_log:
  "map call_model (api_log (snd (get_participant_response e now m prompt uid w)))
     = map call_model (api_log w) @ [m]"
  using get_simple_response_log [of e now m "[(''user'', prompt)]" uid w]
  by (auto simp: get_participant_response_def split: prod.splits sum.splits)

lemma gather_participants_db:
  "w_db (snd (gather_participants e now ms prompt uid w)) = w_db w"
  by (induction ms arbitrary: w) (simp_all add: Let_def case_prod_beta get_participant_response_db)

lemma gather_participants_log:
  "map call_model (api_log (snd (gather_participants e now ms prompt uid w)))
     = map call_model (api_log w) @ ms"
  by (induction ms arbitrary: w)
     (simp_all add: Let_def case_prod_beta get_participant_response_log)

lemma get_max_mode_response_db:
  "w_db (snd (get_max_mode_response e now fin prompt uid w)) = w_db w"
  by (simp add: get_max_mode_response_def Let_def case_prod_beta gather_participants_db
      get_simple_response_db split: sum.splits)

lemma animation_running_append:
  "animation_running r (xs @ ys) = animation_running (animation_running r xs) ys"
  by (induction r xs rule: animation_running.induct) simp_all

lemma chat_except_effect:
  "w_db (hr_world (chat_except e t1 m x h fsm w evs)) = w_db w"
  "api_log (hr_world (chat_except e t1 m x h fsm w evs)) = api_log w"
  "animation_running r (hr_events (chat_except e t1 m x h fsm w evs)) = False"
  by (simp_all add: chat_except_def animation_running_append)

lemma max_mode_except_effect:
  "w_db (hr_world (max_mode_except e x fsm w evs)) = w_db w"
  "api_log (hr_world (max_mode_except e x fsm w evs)) = api_log w"
  "animation_running r (hr_events (max_mode_except e x fsm w evs)) = False"
  by (simp_all add: max_mode_except_def animation_running_append split: exn_class.splits)

lemma send_limit_effect:
  "requests_tbl (w_db (snd (send_limit_reached_message admins now uid w))) = requests_tbl (w_db w)"
  "api_log (snd (send_limit_reached_message admins now uid w)) = api_log w"
  "animation_running r (fst (send_limit_reached_message admins now uid w)) = r"
  by (simp_all add: send_limit_reached_message_def Let_def case_prod_beta
      get_user_level_requests)


section \<open>Quota ledger: recording usage\<close>

lemmas eval_defs = handle_chat_message_def handle_max_mode_message_def
  get_user_details_cached_def get_user_details_def get_user_def get_user_limits_def
  get_user_level_def get_user_requests_today_def send_limit_reached_message_def
  get_simple_response_def get_participant_response_def get_max_mode_response_def
  is_model_available_def are_max_mode_models_available_def
  quota_world_def GLOBAL_CACHE_def free_user_def max_user_def chat_fsm_def max_mode_fsm_def
  ud_get_def ud_set_def ms_get_statuses_def
  healthy_env_def api_down_env_def crashing_env_def
  LIMITS_def REWARD_LIMIT_def msk_date_def MSK_TZ_def microseconds_per_day_def seconds_def
  MAX_MODE_PARTICIPANTS_def MAX_MODE_ARBITER_def DEFAULT_TEMPERATURE_def
  chat_except_def max_mode_except_def is_provider_error_def add_request_def state_clear_def
  error_marker_def safe_text_def numeral_eq_enat Let_def

lemma chat_requests:
  "requests_tbl (w_db (hr_world (handle_chat_message e admins t0 t1 uid txt fsm w))) =
     requests_tbl (w_db w) @
       (if chat_recorded e admins t0 uid txt fsm w
        then [\<lparr>req_user_id = uid, req_model = fsm_model fsm, request_date = msk_date t1,
               req_is_max_mode = False\<rparr>]
        else [])"
  by (auto simp: handle_chat_message_def chat_recorded_def chat_blocked_def under_limit_def
      chat_call_completed_def chat_dispatch_world_def
      Let_def case_prod_beta chat_except_effect
      send_limit_effect get_user_limits_requests requests_today_limits
      get_simple_response_db add_request_def
      is_model_available_cong [OF get_user_details_cached_model_status]
      split: sum.splits option.splits)

lemma max_mode_requests:
  "requests_tbl (w_db (hr_world (handle_max_mode_message e admins t0 t1 uid txt fsm w))) =
     requests_tbl (w_db w) @
       (if max_mode_recorded e admins t0 t1 uid txt w
        then [\<lparr>req_user_id = uid, req_model = ''max_mode_ensemble'', request_date = msk_date t1,
               req_is_max_mode = True\<rparr>]
        else [])"
  by (auto simp: handle_max_mode_message_def max_mode_recorded_def under_limit_def
      max_mode_run_completed_def max_mode_dispatch_world_def
      Let_def case_prod_beta max_mode_except_effect
      get_user_limits_requests requests_today_limits
      get_max_mode_response_db add_request_def
      split: sum.splits option.splits)

lemma chat_rejected_no_call:
  "\<not> under_limit admins t0 uid False w
     \<Longrightarrow> api_log (hr_world (handle_chat_message e admins t0 t1 uid txt fsm w)) = api_log w"
  by (auto simp: handle_chat_message_def under_limit_def Let_def case_prod_beta send_limit_effect
      get_user_requests_today_def get_user_limits_requests
      split: option.splits)

lemma max_rejected_no_call:
  "\<not> under_limit admins t0 uid True w
     \<Longrightarrow> api_log (hr_world (handle_max_mode_message e admins t0 t1 uid txt fsm w)) = api_log w"
  by (auto simp: handle_max_mode_message_def under_limit_def Let_def case_prod_beta
      get_user_requests_today_def get_user_limits_requests
      split: option.splits)

text \<open>
  C1. In both handlers the table of requests after the run is the table before it,
  with one row appended exactly when the run was admitted and its backend call completed:
  for a chat message, when the profile is not blocked, today's count is under the resolved
  daily limit, the model is available and \<open>get_simple_response\<close> returns; for an ensemble
  message, when all ensemble models are available, today's ensemble count is under the
  resolved limit and \<open>get_max_mode_response\<close> returns. In particular a run that finds the
  count at or above the limit appends nothing and makes no backend call, and a run whose
  backend call raises appends nothing.
\<close>

theorem usage_recorded_iff_admitted_and_completed:
  "requests_tbl (w_db (hr_world (handle_chat_message e admins t0 t1 uid txt fsm w))) =
     requests_tbl (w_db w) @
       (if chat_recorded e admins t0 uid txt fsm w
        then [\<lparr>req_user_id = uid, req_model = fsm_model fsm, request_date = msk_date t1,
               req_is_max_mode = False\<rparr>]
        else [])
   \<and> requests_tbl (w_db (hr_world (handle_max_mode_message e admins t0 t1 uid txt fsm w))) =
     requests_tbl (w_db w) @
       (if max_mode_recorded e admins t0 t1 uid txt w
        then [\<lparr>req_user_id = uid, req_model = ''max_mode_ensemble'', request_date = msk_date t1,
               req_is_max_mode = True\<rparr>]
        else [])
   \<and> (\<not> under_limit admins t0 uid False w \<longrightarrow>
        \<not> chat_recorded e admins t0 uid txt fsm w
        \<and> api_log (hr_world (handle_chat_message e admins t0 t1 uid txt fsm w)) = api_log w)
   \<and> (\<not> under_limit admins t0 uid True w \<longrightarrow>
        \<not> max_mode_recorded e admins t0 t1 uid txt w
        \<and> api_log (hr_world (handle_max_mode_message e admins t0 t1 uid txt fsm w)) = api_log w)
   \<and> (\<not> chat_call_completed e admins t0 uid txt fsm w \<longrightarrow>
        \<not> chat_recorded e admins t0 uid txt fsm w)
   \<and> (\<not> max_mode_run_completed e admins t0 t1 uid txt w \<longrightarrow>
        \<not> max_mode_recorded e admins t0 t1 uid txt w)"
  by (simp add: chat_requests max_mode_requests chat_rejected_no_call max_rejected_no_call
      chat_recorded_def max_mode_recorded_def)

theorem usage_recorded_iff_admitted_and_completed_witness:
  "length (requests_tbl (w_db (hr_world
      (handle_chat_message healthy_env [] 0 (seconds 2) 7 ''hi'' chat_fsm (quota_world 2))))) = 3
   \<and> length (requests_tbl (w_db (hr_world
      (handle_chat_message healthy_env [] 0 (seconds 2) 7 ''hi'' chat_fsm (quota_world 3))))) = 3
   \<and> api_log (hr_world
      (handle_chat_message healthy_env [] 0 (seconds 2) 7 ''hi'' chat_fsm (quota_world 3))) = []
   \<and> length (requests_tbl (w_db (hr_world
      (handle_chat_message api_down_env [] 0 (seconds 2) 7 ''hi'' chat_fsm (quota_world 2))))) = 2
   \<and> length (requests_tbl (w_db (hr_world
      (handle_max_mode_message healthy_env [] 0 (seconds 2) 8 ''hi'' max_mode_fsm
         (quota_world 2))))) = 3
   \<and> length (requests_tbl (w_db (hr_world
      (handle_max_mode_message api_down_env [] 0 (seconds 2) 8 ''hi'' max_mode_fsm
         (quota_world 2))))) = 2
   \<and> length (requests_tbl (w_db (hr_world
      (handle_max_mode_message healthy_env [] 0 (seconds 2) 7 ''hi'' max_mode_fsm
         (quota_world 2))))) = 2"
proof -
  have r: "chat_recorded healthy_env [] 0 7 ''hi'' chat_fsm (quota_world 2)"
    "\<not> chat_recorded healthy_env [] 0 7 ''hi'' chat_fsm (quota_world 3)"
    "\<not> chat_recorded api_down_env [] 0 7 ''hi'' chat_fsm (quota_world 2)"
    "max_mode_recorded healthy_env [] 0 (seconds 2) 8 ''hi'' (quota_world 2)"
    "\<not> max_mode_recorded api_down_env [] 0 (seconds 2) 8 ''hi'' (quota_world 2)"
    "\<not> max_mode_recorded healthy_env [] 0 (seconds 2) 7 ''hi'' (quota_world 2)"
    by (simp_all add: chat_recorded_def max_mode_recorded_def chat_blocked_def under_limit_def
        chat_call_completed_def max_mode_run_completed_def chat_dispatch_world_def
        max_mode_dispatch_world_def eval_defs eval_nat_numeral)
  have u: "\<not> under_limit [] 0 7 False (quota_world 3)"
    by (simp add: under_limit_def eval_defs eval_nat_numeral)
  have l: "length (requests_tbl (w_db (quota_world n))) = n" "api_log (quota_world n) = []" for n
    by (simp_all add: quota_world_def)
  show ?thesis
    using usage_recorded_iff_admitted_and_completed
        [of healthy_env "[]" 0 "seconds 2" 7 "''hi''" chat_fsm "quota_world 2"]
      usage_recorded_iff_admitted_and_completed
        [of healthy_env "[]" 0 "seconds 2" 7 "''hi''" chat_fsm "quota_world 3"]
      usage_recorded_iff_admitted_and_completed
        [of api_down_env "[]" 0 "seconds 2" 7 "''hi''" chat_fsm "quota_world 2"]
      usage_recorded_iff_admitted_and_completed
        [of healthy_env "[]" 0 "seconds 2" 8 "''hi''" max_mode_fsm "quota_world 2"]
      usage_recorded_iff_admitted_and_completed
        [of api_down_env "[]" 0 "seconds 2" 8 "''hi''" max_mode_fsm "quota_world 2"]
      usage_recorded_iff_admitted_and_completed
        [of healthy_env "[]" 0 "seconds 2" 7 "''hi''" max_mode_fsm "quota_world 2"]
      r u l
    by simp
qed


section \<open>The animation task of the chat handlers\<close>

lemma chat_no_animation_left:
  "\<not> animation_running False (hr_events (handle_chat_message e admins t0 t1 uid txt fsm w))"
  by (simp add: handle_chat_message_def Let_def case_prod_beta chat_except_effect
      send_limit_effect split: sum.splits option.splits prod.splits)

lemma max_mode_no_animation_left:
  "\<not> animation_running False (hr_events (handle_max_mode_message e admins t0 t1 uid txt fsm w))"
  by (simp add: handle_max_mode_message_def Let_def case_prod_beta max_mode_except_effect
      split: sum.splits option.splits prod.splits)

text \<open>
  C9. However a run of either chat handler ends (with the reply, with the notice of a
  provider or runtime error, with the notice of an unexpected exception, or by an exception
  raised while that notice is sent), no animation task is left running: every start of the
  task is followed by its cancellation. The exceptions of the model are the subclasses of
  \<^verbatim>\<open>Exception\<close>, which are the ones the handlers catch.
\<close>

theorem animation_cancelled_on_every_exit:
  "\<not> animation_running False (hr_events (handle_chat_message e admins t0 t1 uid txt fsm w))
   \<and> \<not> animation_running False
         (hr_events (handle_max_mode_message e admins t0 t1 uid txt fsm w))"
  using chat_no_animation_left max_mode_no_animation_left by blast

theorem animation_cancelled_on_every_exit_witness:
  "hr_events (handle_chat_message healthy_env [] 0 (seconds 2) 7 ''hi'' chat_fsm (quota_world 2))
     = [SendMessage Thinking, StartAnimation, CancelAnimation,
        EditText (Reply ''ok'' ''gpt-4.1'' (7 / 10) 1)]
   \<and> hr_events (handle_chat_message api_down_env [] 0 (seconds 2) 7 ''hi'' chat_fsm (quota_world 2))
     = [SendMessage Thinking, StartAnimation, CancelAnimation,
        EditText (ModelFailedNotice ''gpt-4.1'')]
   \<and> hr_events (handle_chat_message crashing_env [] 0 (seconds 2) 7 ''hi'' chat_fsm (quota_world 2))
     = [SendMessage Thinking, StartAnimation, CancelAnimation,
        EditText (UnexpectedErrorNotice ''bad value'')]
   \<and> \<not> animation_running False
       (hr_events (handle_chat_message crashing_env [] 0 (seconds 2) 7 ''hi'' chat_fsm
          (quota_world 2)))
   \<and> \<not> animation_running False
       (hr_events (handle_max_mode_message healthy_env [] 0 (seconds 2) 8 ''hi'' max_mode_fsm
          (quota_world 2)))"
proof -
  have "hr_events (handle_chat_message healthy_env [] 0 (seconds 2) 7 ''hi'' chat_fsm
          (quota_world 2))
     = [SendMessage Thinking, StartAnimation, CancelAnimation,
        EditText (Reply ''ok'' ''gpt-4.1'' (7 / 10) 1)]"
    by (simp add: eval_defs eval_nat_numeral)
  moreover have "hr_events (handle_chat_message api_down_env [] 0 (seconds 2) 7 ''hi'' chat_fsm
          (quota_world 2))
     = [SendMessage Thinking, StartAnimation, CancelAnimation,
        EditText (ModelFailedNotice ''gpt-4.1'')]"
    by (simp add: eval_defs eval_nat_numeral)
  moreover have "hr_events (handle_chat_message crashing_env [] 0 (seconds 2) 7 ''hi'' chat_fsm
          (quota_world 2))
     = [SendMessage Thinking, StartAnimation, CancelAnimation,
        EditText (UnexpectedErrorNotice ''bad value'')]"
    by (simp add: eval_defs eval_nat_numeral)
  ultimately show ?thesis
    using animation_cancelled_on_every_exit
        [of crashing_env "[]" 0 "seconds 2" 7 "''hi''" chat_fsm "quota_world 2"]
      animation_cancelled_on_every_exit
        [of healthy_env "[]" 0 "seconds 2" 8 "''hi''" max_mode_fsm "quota_world 2"]
    by blast
qed


section \<open>Ensemble orchestrator\<close>

lemma collect_responses_eq:
  "collect_responses rs (parts, n) =
     (parts @ map (\<lambda>r. answer_part (fst r) (safe_text (snd r))) rs,
      n + length (filter (\<lambda>r. \<not> prefix error_marker (safe_text (snd r))) rs))"
  by (induction rs arbitrary: parts n) (auto simp: Let_def)

lemma error_marker_participant_error: "prefix error_marker (participant_error_prefix @ s)"
  by (simp add: error_marker_def participant_error_prefix_def)

lemma error_marker_no_text_error: "prefix error_marker no_text_error"
  by (simp add: error_marker_def no_text_error_def)

text \<open>
  What a participant contributes: the placeholder with the name of the exception type when
  its call raises, the empty text when its response has no content, and never None.
\<close>

lemma raising_participant_placeholder:
  assumes "\<And>r. cr_model r = m \<Longrightarrow> chat_completions_create e r = Raises x"
  shows "fst (get_participant_response e now m prompt uid w) =
           (m, Some (participant_error_prefix @ exn_type_name x @ '')''))"
  using assms
  by (simp add: get_participant_response_def get_simple_response_def Let_def case_prod_beta)

lemma participant_never_none:
  "\<exists>t. fst (get_participant_response e now m prompt uid w) = (m, Some t)"
  by (auto simp: get_participant_response_def split: prod.splits sum.splits)

lemma silent_participant_empty:
  assumes "\<And>r. cr_model r = m \<Longrightarrow> chat_completions_create e r = Response None d"
  shows "fst (get_participant_response e now m prompt uid w) = (m, Some [])"
  using assms
  by (simp add: get_participant_response_def get_simple_response_def Let_def case_prod_beta)

text \<open>
  When every participant raises, the run raises the all-failed error after the participant
  calls, without a call to the arbiter; when some participant text does not start with the
  error marker, the arbiter is called.
\<close>

lemma raising_participant_error:
  assumes "\<And>r. cr_model r = m \<Longrightarrow> \<exists>x. chat_completions_create e r = Raises x"
  shows "\<exists>s. fst (get_participant_response e now m prompt uid w)
           = (m, Some (participant_error_prefix @ s))"
proof -
  from get_simple_response_effect [of e now m "[(''user'', prompt)]" uid w]
  obtain req where req: "cr_model req = m"
    "case fst (get_simple_response e now m [(''user'', prompt)] uid w) of
       Inl x \<Rightarrow> chat_completions_create e req = Raises x
     | Inr (t, d) \<Rightarrow> \<exists>c. chat_completions_create e req = Response c d"
    by blast
  from assms [OF req(1)] obtain x where "chat_completions_create e req = Raises x" by blast
  with req(2) have "fst (get_simple_response e now m [(''user'', prompt)] uid w) = Inl x"
    by (auto split: sum.splits)
  then show ?thesis
    by (auto simp: get_participant_response_def split: prod.splits sum.splits)
qed

lemma gather_all_raising:
  assumes "\<And>r. cr_model r \<in> set ms \<Longrightarrow> \<exists>x. chat_completions_create e r = Raises x"
  shows "filter (\<lambda>r. \<not> prefix error_marker (safe_text (snd r)))
           (fst (gather_participants e now ms prompt uid w)) = []"
  using assms
proof (induction ms arbitrary: w)
  case Nil
  show ?case by simp
next
  case (Cons m ms)
  from raising_participant_error [of m e now prompt uid w] Cons.prems
  obtain s where "fst (get_participant_response e now m prompt uid w)
           = (m, Some (participant_error_prefix @ s))"
    by auto
  moreover have "filter (\<lambda>r. \<not> prefix error_marker (safe_text (snd r)))
      (fst (gather_participants e now ms prompt uid
         (snd (get_participant_response e now m prompt uid w)))) = []"
    using Cons.prems by (intro Cons.IH) auto
  ultimately show ?case
    by (simp add: Let_def case_prod_beta error_marker_participant_error)
       (simp add: safe_text_def error_marker_participant_error)
qed

lemma all_raising_fails_without_arbiter:
  assumes "\<And>r. cr_model r \<in> set MAX_MODE_PARTICIPANTS
             \<Longrightarrow> \<exists>x. chat_completions_create e r = Raises x"
  shows "fst (get_max_mode_response e now fin prompt uid w)
           = Inl (Exn RuntimeError ''RuntimeError'' all_failed_message)
    \<and> map call_model (api_log (snd (get_max_mode_response e now fin prompt uid w)))
           = map call_model (api_log w) @ MAX_MODE_PARTICIPANTS"
  using gather_all_raising [of MAX_MODE_PARTICIPANTS e now prompt uid w, OF assms]
  by (simp add: get_max_mode_response_def Let_def case_prod_beta collect_responses_eq
      gather_participants_log)

lemma no_marker_means_arbiter_called:
  assumes "filter (\<lambda>r. \<not> prefix error_marker (safe_text (snd r)))
           (fst (gather_participants e now MAX_MODE_PARTICIPANTS prompt uid w)) \<noteq> []"
  shows "map call_model (api_log (snd (get_max_mode_response e now fin prompt uid w)))
           = map call_model (api_log w) @ MAX_MODE_PARTICIPANTS @ [MAX_MODE_ARBITER]"
  using assms
  by (simp add: get_max_mode_response_def Let_def case_prod_beta collect_responses_eq
      gather_participants_log get_simple_response_log split: sum.splits)

lemmas eval_ai = get_participant_response_def get_simple_response_def
      get_max_mode_response_def
      get_user_details_cached_def fresh_world_def
      GLOBAL_CACHE_def ud_get_def get_user_details_def empty_db_def Let_def
      one_silent_participant_env_def silent_participants_env_def
      MAX_MODE_PARTICIPANTS_def MAX_MODE_ARBITER_def error_marker_def safe_text_def
      DEFAULT_TEMPERATURE_def

text \<open>
  C3 fails on the code when a participant yields a response without text. Here
  \<^verbatim>\<open>grok-3\<close> returns a response whose content is None and the five other participants
  answer. \<open>get_simple_response\<close> turns the missing content into the empty text, so the test
  against None in \<open>get_max_mode_response\<close> never fires: the participant is listed with
  the empty text, which is not the placeholder prepared for this case and does not start
  with the error marker, and the synthesis prompt that reaches the arbiter carries an empty
  answer for \<^verbatim>\<open>grok-3\<close> instead of the placeholder.
\<close>

theorem silent_participant_gets_no_placeholder:
  "fst (gather_participants one_silent_participant_env 0 MAX_MODE_PARTICIPANTS ''2+2?'' 7
          fresh_world)
     = [(''grok-3'', Some []), (''gpt-4.1'', Some ''four''),
        (''deepseek-chat-v3-0324'', Some ''four''), (''gpt-4.5-preview'', Some ''four''),
        (''chatgpt-4o-latest'', Some ''four''), (''claude-3.7-sonnet'', Some ''four'')]
   \<and> fst (get_max_mode_response one_silent_participant_env 0 (seconds 9) ''2+2?'' 7 fresh_world)
     = Inr (''verdict'', seconds 9)
   \<and> last (api_log (snd (get_max_mode_response one_silent_participant_env 0 (seconds 9) ''2+2?''
        7 fresh_world)))
     = ChatCompletionsCreate
         \<lparr>cr_model = MAX_MODE_ARBITER,
          cr_messages =
            [(''system'', GLOBAL_SYSTEM_PROMPT),
             (''user'', join_lines (meta_prompt_start ''2+2?''
                @ [answer_part ''grok-3'' [], answer_part ''gpt-4.1'' ''four'',
                   answer_part ''deepseek-chat-v3-0324'' ''four'',
                   answer_part ''gpt-4.5-preview'' ''four'',
                   answer_part ''chatgpt-4o-latest'' ''four'',
                   answer_part ''claude-3.7-sonnet'' ''four'']
                @ [result_heading]))],
          cr_temperature = 7 / 10, cr_max_tokens = None, cr_timeout = 120\<rparr>
   \<and> answer_part ''grok-3'' [] \<noteq> answer_part ''grok-3'' no_text_error
   \<and> \<not> prefix error_marker []"
  by (simp add: eval_ai answer_part_def no_text_error_def)

text \<open>
  C4 fails on the code when no participant yields text without any of them raising. Here
  every participant returns a response whose content is None. Each of the six empty texts
  counts as a successful response, so the run does not raise: it calls the arbiter after the
  six participants and returns the arbiter's text.
\<close>

theorem silent_ensemble_reaches_arbiter:
  "fst (get_max_mode_response silent_participants_env 0 (seconds 9) ''2+2?'' 7 fresh_world)
     = Inr (''verdict'', seconds 9)
   \<and> map call_model (api_log (snd (get_max_mode_response silent_participants_env 0 (seconds 9)
        ''2+2?'' 7 fresh_world))) = MAX_MODE_PARTICIPANTS @ [MAX_MODE_ARBITER]
   \<and> map (safe_text \<circ> snd)
       (fst (gather_participants silent_participants_env 0 MAX_MODE_PARTICIPANTS ''2+2?'' 7
          fresh_world)) = [[], [], [], [], [], []]"
  by (simp add: eval_ai)

end
